theory Spec2Isabelle
  imports Main "HOL-Library.Word" "HOL-Library.Signed_Division"
begin

unbundle bit_operations_syntax

section \<open>Machine types of the sketch\<close>

text \<open>
  The sketch TempratureMonitorSolarOvens.ino targets an AVR board: it includes
  \<^verbatim>\<open>EEPROM.h\<close> and lays its records out with a stride of 4 bytes for two \<^verbatim>\<open>int\<close>
  values, so \<^verbatim>\<open>int\<close> is the 16-bit two's complement integer of avr-gcc,
  \<^verbatim>\<open>long\<close> and \<^verbatim>\<open>unsigned long\<close> have 32 bits, and objects are stored little endian.
  Signed values are compared through \<open>sint\<close>, unsigned ones with the order of the
  word type. Signed overflow is undefined in C++: the word operations wrap, and a
  statement below that depends on the value of a difference says that it does not
  overflow.
\<close>

type_synonym byte = "8 word"
type_synonym int16 = "16 word"
type_synonym long32 = "32 word"

section \<open>The EEPROM library\<close>

text \<open>
  The device is a sequence of byte cells; its length is what \<^verbatim>\<open>EEPROM.length()\<close>
  returns (a \<^verbatim>\<open>uint16_t\<close>). \<^verbatim>\<open>EEPROM.get\<close> and \<^verbatim>\<open>EEPROM.put\<close> on an \<^verbatim>\<open>int\<close> copy
  its two bytes from and to consecutive cells, low byte first. The library does not
  say what an access beyond the device does: here a read beyond the device yields 0
  and a write beyond it is dropped, and every statement below that depends on a cell
  names the size of the device it needs.
\<close>

definition EEPROM_length :: "byte list \<Rightarrow> int16" where
  "EEPROM_length e = word_of_nat (length e)"

definition EEPROM_read :: "byte list \<Rightarrow> int16 \<Rightarrow> byte" where
  "EEPROM_read e a = (if unat a < length e then e ! unat a else 0)"

definition EEPROM_write :: "byte list \<Rightarrow> int16 \<Rightarrow> byte \<Rightarrow> byte list" where
  "EEPROM_write e a v = (if unat a < length e then e[unat a := v] else e)"

definition EEPROM_get :: "byte list \<Rightarrow> int16 \<Rightarrow> int16" where
  "EEPROM_get e a =
     (ucast (EEPROM_read e a) :: int16) OR push_bit 8 (ucast (EEPROM_read e (a + 1)) :: int16)"

definition EEPROM_put :: "byte list \<Rightarrow> int16 \<Rightarrow> int16 \<Rightarrow> byte list" where
  "EEPROM_put e a v =
     EEPROM_write (EEPROM_write e a (ucast v)) (a + 1) (ucast (drop_bit 8 v))"

section \<open>Constants and global state\<close>

definition maxReadings :: int16 where
  "maxReadings = 60"

definition eepromStartAddress :: int16 where
  "eepromStartAddress = 4"

definition anomalyThreshold :: int16 where
  "anomalyThreshold = 10"

definition eraseHoldTime :: long32 where
  "eraseHoldTime = 5000"

definition testDurationMinutes :: int16 where
  "testDurationMinutes = 120"

text \<open>\<^verbatim>\<open>(testDurationMinutes * 60UL * 1000UL) / maxReadings\<close>, in \<^verbatim>\<open>unsigned long\<close>.\<close>

definition readDelay :: long32 where
  "readDelay = (scast testDurationMinutes * 60 * 1000) div scast maxReadings"

text \<open>
  What the sketch prints on the serial line, one constructor for each message. The
  message of a stored sample carries the two temperatures and the two addresses. The
  energy line of a report prints the single precision product
  \<^verbatim>\<open>specificHeatCapacityAir * massAir * tempDiff\<close>; floating point arithmetic is not
  part of this development, and the event carries the integer \<^verbatim>\<open>tempDiff\<close> the product
  is computed from. The first argument of a report line is the channel (1 or 2).
\<close>

datatype event =
    Initialized int16
  | LoggingStarted
  | LoggingStopped
  | AnomalousReading
  | Stored int16 int16 int16 int16
  | EepromOverflow
  | MaximumReadingsReached
  | CurrentTemperature int16 int16
  | Thermistor1Zero
  | Thermistor2Zero
  | LoadButtonPressed
  | ErasingStoredData
  | DataErased
  | LoadingData
  | InvalidEepromAddress
  | Line int16 int16
  | LoadingComplete
  | HighestTemperature nat int16
  | AverageTemperature nat int16
  | MeasurementsCount nat int16
  | TotalEnergyCollected nat int16
  | NoDataToLoad

text \<open>
  The global variables of the sketch that change, with the EEPROM and the serial
  output. \<open>True\<close> is \<^verbatim>\<open>HIGH\<close>.
\<close>

record state =
  eeprom :: "byte list"
  serial :: "event list"
  logging :: bool
  buttonState :: bool
  lastButtonState :: bool
  buttonPressStartTime :: long32
  eraseMode :: bool
  readingIndex :: int16
  previousMillis :: long32

text \<open>
  What one pass of \<^verbatim>\<open>loop()\<close> reads from the board: the two buttons, the clock at
  line 101 (\<open>millis1\<close>), at line 187 (\<open>millis2\<close>) and at line 192 or 204
  (\<open>millis3\<close>), the two analog values, and the two Fahrenheit temperatures that the
  floating point conversion of lines 111 to 122 yields for them (read only when both
  analog values are positive). \<^verbatim>\<open>delay(500)\<close> only lets time pass, which shows in
  the clock values of the passes that follow.
\<close>

record inputs =
  togglePin :: bool
  loadPin :: bool
  millis1 :: long32
  millis2 :: long32
  millis3 :: long32
  analogValue1 :: int16
  analogValue2 :: int16
  temperatureF1 :: int16
  temperatureF2 :: int16

section \<open>setup()\<close>

definition setup_board :: "byte list \<Rightarrow> state" where
  "setup_board e =
     \<lparr> eeprom = e,
       serial = [Initialized (EEPROM_get e 0)],
       logging = False,
       buttonState = False,
       lastButtonState = False,
       buttonPressStartTime = 0,
       eraseMode = False,
       readingIndex = EEPROM_get e 0,
       previousMillis = 0 \<rparr>"

section \<open>loop(): the toggle button (lines 84 to 98)\<close>

definition say :: "event list \<Rightarrow> state \<Rightarrow> state" where
  "say evs st = st\<lparr>serial := serial st @ evs\<rparr>"

definition toggle_button :: "state \<Rightarrow> inputs \<Rightarrow> state" where
  "toggle_button st inp =
     (let st1 = st\<lparr>buttonState := togglePin inp\<rparr>;
          st2 = (if \<not> buttonState st1 \<and> lastButtonState st1 then
                   (let st' = st1\<lparr>logging := \<not> logging st1\<rparr> in
                    if logging st' then (say [LoggingStarted] st')\<lparr>readingIndex := 0\<rparr>
                    else say [LoggingStopped] st')
                 else st1)
      in st2\<lparr>lastButtonState := buttonState st2\<rparr>)"

section \<open>loop(): sampling (lines 101 to 182)\<close>

text \<open>The macro \<^verbatim>\<open>abs(x)\<close> of Arduino.h: \<^verbatim>\<open>((x)>0?(x):-(x))\<close>.\<close>

definition c_abs :: "int16 \<Rightarrow> int16" where
  "c_abs x = (if 0 < sint x then x else - x)"

text \<open>Lines 125 to 137: whether the reading is discarded as anomalous.\<close>

definition anomalous :: "byte list \<Rightarrow> int16 \<Rightarrow> int16 \<Rightarrow> int16 \<Rightarrow> bool" where
  "anomalous e idx t1 t2 =
     (0 < sint idx \<and>
      (let prevAddress1 = eepromStartAddress + (idx - 1) * 4;
           prevAddress2 = prevAddress1 + 2;
           prevTemperatureF1 = EEPROM_get e prevAddress1;
           prevTemperatureF2 = EEPROM_get e prevAddress2
       in sint anomalyThreshold < sint (c_abs (t1 - prevTemperatureF1)) \<or>
          sint anomalyThreshold < sint (c_abs (t2 - prevTemperatureF2))))"

text \<open>
  Lines 140 to 164: storing a reading. The comparison with \<^verbatim>\<open>EEPROM.length()\<close> is
  between an \<^verbatim>\<open>int\<close> and a \<^verbatim>\<open>uint16_t\<close>, hence unsigned.
\<close>

definition store_reading :: "state \<Rightarrow> int16 \<Rightarrow> int16 \<Rightarrow> state" where
  "store_reading st t1 t2 =
     (if sint (readingIndex st) < sint maxReadings then
        (let address1 = eepromStartAddress + readingIndex st * 4;
             address2 = address1 + 2
         in if address2 + 1 < EEPROM_length (eeprom st) then
              (let e1 = EEPROM_put (eeprom st) address1 t1;
                   e2 = EEPROM_put e1 address2 t2;
                   idx = readingIndex st + 1;
                   e3 = EEPROM_put e2 0 idx
               in say [Stored t1 t2 address1 address2]
                    (st\<lparr>eeprom := e3, readingIndex := idx\<rparr>))
            else (say [EepromOverflow] st)\<lparr>logging := False\<rparr>)
      else (say [MaximumReadingsReached] st)\<lparr>logging := False\<rparr>)"

text \<open>
  Lines 101 to 182. The second component tells whether \<^verbatim>\<open>loop()\<close> returned at
  line 135.
\<close>

definition read_temperatures :: "state \<Rightarrow> inputs \<Rightarrow> state \<times> bool" where
  "read_temperatures st inp =
     (if logging st \<and> readDelay \<le> millis1 inp - previousMillis st then
        (let st1 = st\<lparr>previousMillis := millis1 inp\<rparr> in
         if 0 < sint (analogValue1 inp) \<and> 0 < sint (analogValue2 inp) then
           (if anomalous (eeprom st1) (readingIndex st1) (temperatureF1 inp) (temperatureF2 inp)
            then (say [AnomalousReading] st1, True)
            else (say [CurrentTemperature (temperatureF1 inp) (temperatureF2 inp)]
                    (store_reading st1 (temperatureF1 inp) (temperatureF2 inp)), False))
         else
           (say ((if sint (analogValue1 inp) \<le> 0 then [Thermistor1Zero] else []) @
                 (if sint (analogValue2 inp) \<le> 0 then [Thermistor2Zero] else [])) st1, False))
      else (st, False))"

section \<open>loop(): the load button (lines 185 to 287)\<close>

text \<open>
  Lines 194 to 196. The counter runs from 0 to \<^verbatim>\<open>maxReadings * 4\<close>, far from any
  overflow, and is a natural number here.
\<close>

function erase_loop :: "nat \<Rightarrow> byte list \<Rightarrow> byte list" where
  "erase_loop i e =
     (if int i < sint (maxReadings * 4)
      then erase_loop (i + 1) (EEPROM_write e (eepromStartAddress + word_of_nat i) 0)
      else e)"
  by pat_completeness auto
termination
  by (relation "measure (\<lambda>(i, e). nat (sint (maxReadings * 4)) - i)") auto

text \<open>Lines 193 to 201.\<close>

definition erase_data :: "state \<Rightarrow> state" where
  "erase_data st =
     (let st1 = say [ErasingStoredData] st;
          e1 = erase_loop 0 (eeprom st1);
          st2 = st1\<lparr>eeprom := EEPROM_put e1 0 0, readingIndex := 0\<rparr>
      in (say [DataErased] st2)\<lparr>eraseMode := True\<rparr>)"

text \<open>The local variables of the replay, lines 207 to 214.\<close>

record stats =
  highestTemp1 :: int16
  highestTemp2 :: int16
  totalTemp1 :: long32
  totalTemp2 :: long32
  firstTemp1 :: int16
  lastTemp1 :: int16
  firstTemp2 :: int16
  lastTemp2 :: int16

definition init_stats :: stats where
  "init_stats =
     \<lparr> highestTemp1 = - 9999, highestTemp2 = - 9999,
       totalTemp1 = 0, totalTemp2 = 0,
       firstTemp1 = 0, lastTemp1 = 0, firstTemp2 = 0, lastTemp2 = 0 \<rparr>"

text \<open>Lines 234 to 245: one record enters the statistics.\<close>

definition update_stats :: "int16 \<Rightarrow> nat \<Rightarrow> int16 \<Rightarrow> int16 \<Rightarrow> stats \<Rightarrow> stats" where
  "update_stats n i t1 t2 s =
     (let s1 = (if i = 0 then s\<lparr>firstTemp1 := t1, firstTemp2 := t2\<rparr> else s);
          s2 = (if int i = sint (n - 1) then s1\<lparr>lastTemp1 := t1, lastTemp2 := t2\<rparr> else s1);
          s3 = (if sint (highestTemp1 s2) < sint t1 then s2\<lparr>highestTemp1 := t1\<rparr> else s2);
          s4 = (if sint (highestTemp2 s3) < sint t2 then s3\<lparr>highestTemp2 := t2\<rparr> else s3)
      in s4\<lparr>totalTemp1 := totalTemp1 s4 + scast t1, totalTemp2 := totalTemp2 s4 + scast t2\<rparr>)"

text \<open>
  Lines 215 to 246, for \<^verbatim>\<open>readingIndex = n\<close>. The counter \<open>i\<close> stays below \<open>n\<close>, so
  it cannot overflow and is a natural number here; the addresses are computed in
  \<^verbatim>\<open>int\<close>.
\<close>

function load_loop :: "byte list \<Rightarrow> int16 \<Rightarrow> nat \<Rightarrow> stats \<times> event list \<Rightarrow> stats \<times> event list" where
  "load_loop e n i (s, out) =
     (if int i < sint n then
        (let address1 = eepromStartAddress + word_of_nat i * 4;
             address2 = address1 + 2
         in if address2 + 1 < EEPROM_length e then
              (let t1 = EEPROM_get e address1;
                   t2 = EEPROM_get e address2
               in load_loop e n (i + 1) (update_stats n i t1 t2 s, out @ [Line t1 t2]))
            else (s, out @ [InvalidEepromAddress]))
      else (s, out))"
  by pat_completeness auto
termination
  by (relation "measure (\<lambda>(e, n, i, p). nat (sint n) - i)") auto

text \<open>
  \<^verbatim>\<open>totalTemp / readingIndex\<close>: the \<^verbatim>\<open>int\<close> is converted to \<^verbatim>\<open>long\<close>, the quotient
  is truncated towards zero, and the assignment to an \<^verbatim>\<open>int\<close> keeps its low 16 bits.
\<close>

definition average :: "long32 \<Rightarrow> int16 \<Rightarrow> int16" where
  "average tot n = word_of_int (sint tot sdiv sint n)"

text \<open>Lines 247 to 282: what is printed after the scan.\<close>

definition report :: "int16 \<Rightarrow> stats \<Rightarrow> event list" where
  "report n s =
     (if 0 < sint n then
        (let avgTemp1 = average (totalTemp1 s) n;
             avgTemp2 = average (totalTemp2 s) n;
             tempDiff1 = c_abs (lastTemp1 s - firstTemp1 s);
             tempDiff2 = c_abs (lastTemp2 s - firstTemp2 s)
         in [LoadingComplete,
             HighestTemperature 1 (highestTemp1 s), AverageTemperature 1 avgTemp1,
             MeasurementsCount 1 n, TotalEnergyCollected 1 tempDiff1,
             HighestTemperature 2 (highestTemp2 s), AverageTemperature 2 avgTemp2,
             MeasurementsCount 2 n, TotalEnergyCollected 2 tempDiff2])
      else [NoDataToLoad])"

text \<open>Lines 206 to 284.\<close>

definition load_data :: "state \<Rightarrow> state" where
  "load_data st =
     (case load_loop (eeprom st) (readingIndex st) 0 (init_stats, serial st @ [LoadingData]) of
        (s, out) \<Rightarrow> st\<lparr>serial := out @ report (readingIndex st) s\<rparr>)"

text \<open>Lines 185 to 287.\<close>

definition load_button :: "state \<Rightarrow> inputs \<Rightarrow> state" where
  "load_button st inp =
     (if \<not> loadPin inp then
        (let st1 = (if buttonPressStartTime st = 0
                    then (say [LoadButtonPressed] st)
                           \<lparr>buttonPressStartTime := millis2 inp, eraseMode := False\<rparr>
                    else st)
         in if eraseHoldTime \<le> millis3 inp - buttonPressStartTime st1 \<and> \<not> eraseMode st1
            then erase_data st1 else st1)
      else
        (let st1 = (if buttonPressStartTime st \<noteq> 0 \<and>
                       millis3 inp - buttonPressStartTime st < eraseHoldTime \<and> \<not> eraseMode st
                    then load_data st else st)
         in st1\<lparr>buttonPressStartTime := 0\<rparr>))"

section \<open>loop()\<close>

definition loop :: "state \<Rightarrow> inputs \<Rightarrow> state" where
  "loop st inp =
     (case read_temperatures (toggle_button st inp) inp of
        (st', returned) \<Rightarrow> if returned then st' else load_button st' inp)"

section \<open>The store as a sequence of records\<close>

text \<open>
  The sketch has no accessor of its own: a record is read in place, by the replay
  (lines 215 to 227) and by the anomaly check (lines 127 to 131). \<open>get\<close> is the read
  the replay performs for index \<open>i\<close>: it happens when the loop condition
  \<^verbatim>\<open>i < readingIndex\<close> and the address check of line 221 both hold.
\<close>

datatype error = RangeError

definition record_at :: "byte list \<Rightarrow> nat \<Rightarrow> int16 \<times> int16" where
  "record_at e i =
     (let address1 = eepromStartAddress + word_of_nat i * 4;
          address2 = address1 + 2
      in (EEPROM_get e address1, EEPROM_get e address2))"

definition get :: "state \<Rightarrow> nat \<Rightarrow> error + int16 \<times> int16" where
  "get st i =
     (if int i < sint (readingIndex st) \<and>
         eepromStartAddress + word_of_nat i * 4 + 2 + 1 < EEPROM_length (eeprom st)
      then Inr (record_at (eeprom st) i) else Inl RangeError)"

definition records :: "byte list \<Rightarrow> nat \<Rightarrow> (int16 \<times> int16) list" where
  "records e n = map (record_at e) [0..<n]"

text \<open>
  The device holds the count and all \<^verbatim>\<open>maxReadings\<close> records (the last record ends
  at cell 243), and its size is a \<^verbatim>\<open>uint16_t\<close>.
\<close>

definition device_ok :: "byte list \<Rightarrow> bool" where
  "device_ok e = (244 \<le> length e \<and> length e < 65536)"

text \<open>The cells once a reading is stored as record \<open>n\<close>, lines 145 to 148.\<close>

definition put_record :: "byte list \<Rightarrow> nat \<Rightarrow> int16 \<Rightarrow> int16 \<Rightarrow> byte list" where
  "put_record e n t1 t2 =
     EEPROM_put
       (EEPROM_put (EEPROM_put e (eepromStartAddress + word_of_nat n * 4) t1)
          (eepromStartAddress + word_of_nat n * 4 + 2) t2)
       0 (word_of_nat n + 1)"

text \<open>What one turn of the replay loop does with record \<open>j\<close>: lines 229 to 245.\<close>

definition scan_step :: "byte list \<Rightarrow> int16 \<Rightarrow> nat \<Rightarrow> stats \<Rightarrow> stats" where
  "scan_step e n j = update_stats n j (fst (record_at e j)) (snd (record_at e j))"

definition line_at :: "byte list \<Rightarrow> nat \<Rightarrow> event" where
  "line_at e j = Line (fst (record_at e j)) (snd (record_at e j))"

text \<open>Readings stored one after the other, each by lines 140 to 164.\<close>

fun store_all :: "state \<Rightarrow> (int16 \<times> int16) list \<Rightarrow> state" where
  "store_all st [] = st"
| "store_all st ((t1, t2) # rs) = store_all (store_reading st t1 t2) rs"

text \<open>Passes of \<^verbatim>\<open>loop()\<close> one after the other, each with what it reads.\<close>

fun run :: "state \<Rightarrow> inputs list \<Rightarrow> state" where
  "run st [] = st"
| "run st (inp # inps) = run (loop st inp) inps"

text \<open>
  Every pass of the sequence comes at least \<^verbatim>\<open>readDelay\<close> after the pass before it,
  the first one that long after \<open>prev\<close>: the condition of line 102 when every pass
  samples.
\<close>

fun due_each :: "long32 \<Rightarrow> inputs list \<Rightarrow> bool" where
  "due_each prev [] = True"
| "due_each prev (inp # inps) = (readDelay \<le> millis1 inp - prev \<and> due_each (millis1 inp) inps)"

text \<open>
  The difference \<^verbatim>\<open>a - b\<close> of two \<^verbatim>\<open>int\<close> values and its negation do not overflow.
\<close>

definition diff_fits :: "int16 \<Rightarrow> int16 \<Rightarrow> bool" where
  "diff_fits a b = (- 32768 < sint a - sint b \<and> sint a - sint b < 32768)"

text \<open>
  The messages of the two places that write to the EEPROM: a stored reading (line 149)
  and a finished erase (line 199). \<open>announced st st'\<close>: from \<open>st\<close> to \<open>st'\<close> the
  serial output has only grown, and if the EEPROM differs then one of the two messages
  is among the new output.
\<close>

fun writes :: "event \<Rightarrow> bool" where
  "writes (Stored t1 t2 a1 a2) = True"
| "writes DataErased = True"
| "writes ev = False"

definition announced :: "state \<Rightarrow> state \<Rightarrow> bool" where
  "announced st st' =
     (\<exists>evs. serial st' = serial st @ evs \<and>
        (eeprom st' \<noteq> eeprom st \<longrightarrow> (\<exists>ev\<in>set evs. writes ev)))"

section \<open>Boards and inputs used as examples\<close>

text \<open>
  Devices of 256 cells: one that holds the two records (70, 72) and (74, 76), an
  erased one, one that holds (70, 72), (74, 76) and (77, 79), one that holds the single
  record (-10000, -10000), and one that holds 60 records, the last one (70, 72).
\<close>

definition logged_device :: "byte list" where
  "logged_device = [2, 0, 0, 0, 70, 0, 72, 0, 74, 0, 76, 0] @ replicate 244 0"

definition blank_device :: "byte list" where
  "blank_device = replicate 256 0"

definition session_device :: "byte list" where
  "session_device =
     [3, 0, 0, 0, 70, 0, 72, 0, 74, 0, 76, 0, 77, 0, 79, 0] @ replicate 240 0"

definition cold_device :: "byte list" where
  "cold_device = [1, 0, 0, 0, 240, 216, 240, 216] @ replicate 248 0"

definition full_device :: "byte list" where
  "full_device = [60, 0, 0, 0] @ replicate 236 0 @ [70, 0, 72, 0] @ replicate 12 0"

text \<open>
  A pass at time \<open>t\<close> with both buttons released and both sensors connected, the same
  with the toggle button pressed, and the same with given temperatures.
\<close>

definition idle_pass :: "long32 \<Rightarrow> inputs" where
  "idle_pass t =
     \<lparr> togglePin = True, loadPin = True, millis1 = t, millis2 = t, millis3 = t,
       analogValue1 = 512, analogValue2 = 512, temperatureF1 = 0, temperatureF2 = 0 \<rparr>"

definition toggle_pass :: "long32 \<Rightarrow> inputs" where
  "toggle_pass t = (idle_pass t)\<lparr>togglePin := False\<rparr>"

definition sample_pass :: "long32 \<Rightarrow> int16 \<Rightarrow> int16 \<Rightarrow> inputs" where
  "sample_pass t a b = (idle_pass t)\<lparr>temperatureF1 := a, temperatureF2 := b\<rparr>"

text \<open>A pass with the load button down.\<close>

definition load_press :: "long32 \<Rightarrow> inputs" where
  "load_press t = (idle_pass t)\<lparr>loadPin := False\<rparr>"

text \<open>
  A session: the toggle button is pressed, four sampling passes follow, the third of
  them with a reading far from the record before it, then the load button is pressed
  and released.
\<close>

definition scenario :: "inputs list" where
  "scenario =
     [toggle_pass 2000,
      sample_pass 130000 70 72, sample_pass 260000 74 76,
      sample_pass 390000 200 76, sample_pass 520000 77 79,
      load_press 530000, idle_pass 530100]"

text \<open>
  The board after \<^verbatim>\<open>setup()\<close> and one pass with nothing pressed, and the same board
  in the middle of a session.
\<close>

definition idle_state :: "byte list \<Rightarrow> state" where
  "idle_state e = loop (setup_board e) (idle_pass 1000)"

definition logging_state :: "byte list \<Rightarrow> state" where
  "logging_state e = (idle_state e)\<lparr>logging := True\<rparr>"

section \<open>Cells, bytes and addresses\<close>

lemma length_EEPROM_write [simp]: "length (EEPROM_write e a v) = length e"
  by (simp add: EEPROM_write_def)

lemma length_EEPROM_put [simp]: "length (EEPROM_put e a v) = length e"
  by (simp add: EEPROM_put_def)

lemma EEPROM_length_put [simp]: "EEPROM_length (EEPROM_put e a v) = EEPROM_length e"
  by (simp add: EEPROM_length_def)

lemma device_ok_put [simp]: "device_ok (EEPROM_put e a v) = device_ok e"
  by (simp add: device_ok_def)

lemma bytes_of_int16:
  "(ucast (ucast v :: byte) :: int16) OR push_bit 8 (ucast (ucast (drop_bit 8 v) :: byte)) = v"
  by (rule bit_word_eqI) (auto simp add: bit_simps)

lemma unat_succ: "unat (a :: int16) < 65535 \<Longrightarrow> unat (a + 1) = unat a + 1"
  by (simp add: unat_word_ariths)

lemma read_write_same: "unat a < length e \<Longrightarrow> EEPROM_read (EEPROM_write e a v) a = v"
  by (simp add: EEPROM_read_def EEPROM_write_def)

lemma read_write_other: "a \<noteq> b \<Longrightarrow> EEPROM_read (EEPROM_write e a v) b = EEPROM_read e b"
  using word_unat_eq_iff [of a b] by (simp add: EEPROM_read_def EEPROM_write_def)

lemma get_put_same:
  assumes "unat a + 1 < length e" "unat a < 65535"
  shows "EEPROM_get (EEPROM_put e a v) a = v"
proof -
  have n: "a + 1 \<noteq> a" by simp
  have u: "unat (a + 1) < length e" using assms by (simp add: unat_succ)
  show ?thesis
    using assms u n
    by (simp add: EEPROM_get_def EEPROM_put_def read_write_same read_write_other bytes_of_int16)
qed

lemma get_put_other:
  assumes "unat a < 65535" "unat b < 65535" "unat a + 1 < unat b \<or> unat b + 1 < unat a"
  shows "EEPROM_get (EEPROM_put e a v) b = EEPROM_get e b"
proof -
  have "unat a \<noteq> unat b" "unat (a + 1) \<noteq> unat b" "unat a \<noteq> unat (b + 1)"
    "unat (a + 1) \<noteq> unat (b + 1)"
    using assms by (auto simp add: unat_succ)
  then have "a \<noteq> b" "a + 1 \<noteq> b" "a \<noteq> b + 1" "a + 1 \<noteq> b + 1"
    by auto
  then show ?thesis
    by (simp add: EEPROM_get_def EEPROM_put_def read_write_other)
qed

lemma unat_address1:
  "i < 16000 \<Longrightarrow> unat (eepromStartAddress + word_of_nat i * 4 :: int16) = 4 + i * 4"
  by (simp add: eepromStartAddress_def unat_word_ariths unat_of_nat)

lemma unat_address2:
  "i < 16000 \<Longrightarrow> unat (eepromStartAddress + word_of_nat i * 4 + 2 :: int16) = 6 + i * 4"
  by (simp add: eepromStartAddress_def unat_word_ariths unat_of_nat)

lemma unat_address3:
  "i < 16000 \<Longrightarrow> unat (eepromStartAddress + word_of_nat i * 4 + 2 + 1 :: int16) = 7 + i * 4"
  by (simp add: eepromStartAddress_def unat_word_ariths unat_of_nat)

lemma unat_EEPROM_length: "length e < 65536 \<Longrightarrow> unat (EEPROM_length e) = length e"
  by (simp add: EEPROM_length_def unat_of_nat)

lemma sint_index: "n \<le> 32767 \<Longrightarrow> sint (word_of_nat n :: int16) = int n"
  by (simp add: signed_of_nat signed_take_bit_int_eq_self)

lemma unat_address2':
  "i < 16000 \<Longrightarrow> unat (2 + (eepromStartAddress + word_of_nat i * 4) :: int16) = 6 + i * 4"
  by (simp add: eepromStartAddress_def unat_word_ariths unat_of_nat)

lemma unat_address3':
  "i < 16000 \<Longrightarrow> unat (3 + (eepromStartAddress + word_of_nat i * 4) :: int16) = 7 + i * 4"
  by (simp add: eepromStartAddress_def unat_word_ariths unat_of_nat)

section \<open>Storing readings\<close>

lemma store_reading_ok:
  assumes "device_ok (eeprom st)" "readingIndex st = word_of_nat n" "n < 60"
  shows "store_reading st t1 t2 =
     say [Stored t1 t2 (eepromStartAddress + word_of_nat n * 4)
            (eepromStartAddress + word_of_nat n * 4 + 2)]
       (st\<lparr>eeprom := put_record (eeprom st) n t1 t2, readingIndex := word_of_nat n + 1\<rparr>)"
proof -
  have a: "eepromStartAddress + word_of_nat n * 4 + 2 + 1 < EEPROM_length (eeprom st)"
    using assms by (simp add: word_less_nat_alt unat_address3' unat_EEPROM_length device_ok_def)
  have b: "sint (readingIndex st) < sint maxReadings"
    using assms by (simp add: sint_index maxReadings_def)
  show ?thesis
    using a b assms(2) by (simp add: store_reading_def put_record_def Let_def)
qed

lemma device_ok_put_record [simp]: "device_ok (put_record e n t1 t2) = device_ok e"
  by (simp add: put_record_def)

lemma count_put_record:
  assumes "device_ok e"
  shows "EEPROM_get (put_record e n t1 t2) 0 = word_of_nat n + 1"
  using assms by (simp add: put_record_def get_put_same device_ok_def)

lemma record_at_put_record_same:
  assumes "device_ok e" "n < 60"
  shows "record_at (put_record e n t1 t2) n = (t1, t2)"
  using assms
  by (simp add: put_record_def record_at_def Let_def get_put_same get_put_other
      unat_address1 unat_address2 unat_address2' device_ok_def)

lemma record_at_put_record_other:
  assumes "device_ok e" "n < 60" "j < 60" "j \<noteq> n"
  shows "record_at (put_record e n t1 t2) j = record_at e j"
proof (cases "j < n")
  case True
  with assms show ?thesis
    by (simp add: put_record_def record_at_def Let_def get_put_other
        unat_address1 unat_address2 unat_address2' device_ok_def)
next
  case False
  with assms have "n < j" by simp
  with assms show ?thesis
    by (simp add: put_record_def record_at_def Let_def get_put_other
        unat_address1 unat_address2 unat_address2' device_ok_def)
qed

lemma records_put_record:
  assumes "device_ok e" "n < 60"
  shows "records (put_record e n t1 t2) (Suc n) = records e n @ [(t1, t2)]"
  using assms by (simp add: records_def record_at_put_record_same record_at_put_record_other)

lemma store_all_records:
  assumes "device_ok (eeprom st)" "readingIndex st = word_of_nat n" "n + length rs \<le> 60"
  shows "readingIndex (store_all st rs) = word_of_nat (n + length rs) \<and>
         device_ok (eeprom (store_all st rs)) \<and>
         records (eeprom (store_all st rs)) (n + length rs) = records (eeprom st) n @ rs \<and>
         logging (store_all st rs) = logging st \<and>
         (rs \<noteq> [] \<longrightarrow> EEPROM_get (eeprom (store_all st rs)) 0 = word_of_nat (n + length rs))"
  using assms
proof (induction rs arbitrary: st n)
  case Nil
  then show ?case by simp
next
  case (Cons r rs)
  obtain t1 t2 where r: "r = (t1, t2)" by (cases r)
  let ?st1 = "store_reading st t1 t2"
  have n: "n < 60" using Cons.prems by simp
  have st1: "?st1 = say [Stored t1 t2 (eepromStartAddress + word_of_nat n * 4)
            (eepromStartAddress + word_of_nat n * 4 + 2)]
       (st\<lparr>eeprom := put_record (eeprom st) n t1 t2, readingIndex := word_of_nat n + 1\<rparr>)"
    using Cons.prems n by (simp add: store_reading_ok)
  have e1: "eeprom ?st1 = put_record (eeprom st) n t1 t2"
    and i1: "readingIndex ?st1 = word_of_nat (Suc n)"
    and l1: "logging ?st1 = logging st"
    by (simp_all add: st1 say_def)
  have d1: "device_ok (eeprom ?st1)" using Cons.prems by (simp add: e1)
  have len: "Suc n + length rs \<le> 60" using Cons.prems by simp
  note IH = Cons.IH [OF d1 i1 len]
  have c1: "EEPROM_get (eeprom ?st1) 0 = word_of_nat (Suc n)"
    using Cons.prems by (simp add: e1 count_put_record)
  have r1: "records (eeprom ?st1) (Suc n) = records (eeprom st) n @ [(t1, t2)]"
    using Cons.prems n by (simp add: e1 records_put_record)
  show ?case
    using IH c1 r1 l1 by (cases rs) (simp_all add: r)
qed

section \<open>The replay loop\<close>

declare load_loop.simps [simp del]

lemma load_loop_step:
  assumes "device_ok e" "n \<le> 60" "i < n"
  shows "load_loop e (word_of_nat n) i (s, out) =
         load_loop e (word_of_nat n) (Suc i) (scan_step e (word_of_nat n) i s, out @ [line_at e i])"
proof -
  have a: "eepromStartAddress + word_of_nat i * 4 + 2 + 1 < EEPROM_length e"
    using assms by (simp add: word_less_nat_alt unat_address3' unat_EEPROM_length device_ok_def)
  have b: "int i < sint (word_of_nat n :: int16)"
    using assms by (simp add: sint_index)
  show ?thesis
    using a b
    by (subst load_loop.simps) (simp add: Let_def scan_step_def line_at_def record_at_def)
qed

lemma load_loop_stop:
  assumes "n \<le> 60"
  shows "load_loop e (word_of_nat n) n (s, out) = (s, out)"
  using assms by (subst load_loop.simps) (simp add: sint_index)

lemma load_loop_run:
  assumes "device_ok e" "n \<le> 60" "i \<le> n"
  shows "load_loop e (word_of_nat n) i (s, out) =
         (fold (scan_step e (word_of_nat n)) [i..<n] s, out @ map (line_at e) [i..<n])"
  using assms(3)
proof (induction "n - i" arbitrary: i s out)
  case 0
  then have "i = n" by simp
  then show ?case using assms by (simp add: load_loop_stop)
next
  case (Suc k)
  then have i: "i < n" and k: "k = n - Suc i" and le: "Suc i \<le> n" by simp_all
  show ?case
    using Suc.hyps(1) [OF k le] assms i
    by (simp add: load_loop_step upt_conv_Cons)
qed

section \<open>Reading records back\<close>

lemma get_in_range:
  assumes "device_ok (eeprom st)" "readingIndex st = word_of_nat n" "n \<le> 60" "i < n"
  shows "get st i = Inr (record_at (eeprom st) i)"
proof -
  have a: "eepromStartAddress + word_of_nat i * 4 + 2 + 1 < EEPROM_length (eeprom st)"
    using assms by (simp add: word_less_nat_alt unat_address3' unat_EEPROM_length device_ok_def)
  have b: "int i < sint (readingIndex st)"
    using assms by (simp add: sint_index)
  show ?thesis using a b by (simp add: get_def)
qed

lemma length_records [simp]: "length (records e n) = n"
  by (simp add: records_def)

lemma nth_records: "i < n \<Longrightarrow> records e n ! i = record_at e i"
  by (simp add: records_def)

lemma lines_of_records:
  "map (line_at e) [0..<n] = map (\<lambda>(a, b). Line a b) (records e n)"
  by (simp add: records_def line_at_def case_prod_beta)

lemma load_data_replay:
  assumes "device_ok (eeprom st)" "readingIndex st = word_of_nat n" "n \<le> 60"
  shows "serial (load_data st) =
           serial st @ [LoadingData] @ map (\<lambda>(a, b). Line a b) (records (eeprom st) n) @
           report (readingIndex st)
             (fold (scan_step (eeprom st) (readingIndex st)) [0..<n] init_stats)"
  using assms by (simp add: load_data_def load_loop_run lines_of_records)

lemma load_data_frame: "load_data st = st\<lparr>serial := serial (load_data st)\<rparr>"
  by (simp add: load_data_def split: prod.splits)

section \<open>The example boards\<close>

lemma idle_state_eq:
  "idle_state e = (setup_board e)\<lparr>buttonState := True, lastButtonState := True\<rparr>"
  by (simp add: idle_state_def loop_def toggle_button_def read_temperatures_def load_button_def
      setup_board_def idle_pass_def Let_def)

lemma eeprom_logging_state [simp]: "eeprom (logging_state e) = e"
  by (simp add: logging_state_def idle_state_eq setup_board_def)

lemma eeprom_idle_state [simp]: "eeprom (idle_state e) = e"
  by (simp add: idle_state_eq setup_board_def)

lemma device_ok_examples [simp]:
  "device_ok blank_device" "device_ok logged_device" "device_ok full_device"
  "device_ok session_device" "device_ok cold_device"
  by (simp_all add: device_ok_def blank_device_def logged_device_def full_device_def
      session_device_def cold_device_def)

section \<open>What a pass writes\<close>

lemma load_loop_out: "\<exists>evs. snd (load_loop e n i (s, out)) = out @ evs"
proof (induction e n i "(s, out)" arbitrary: s out rule: load_loop.induct)
  case (1 e n i s out)
  show ?case
  proof (cases "int i < sint n \<and>
      eepromStartAddress + word_of_nat i * 4 + 2 + 1 < EEPROM_length e")
    case True
    let ?t1 = "EEPROM_get e (eepromStartAddress + word_of_nat i * 4)"
    let ?t2 = "EEPROM_get e (eepromStartAddress + word_of_nat i * 4 + 2)"
    obtain evs where "snd (load_loop e n (i + 1) (update_stats n i ?t1 ?t2 s, out @ [Line ?t1 ?t2])) =
      (out @ [Line ?t1 ?t2]) @ evs"
      using "1" [OF _ refl refl _ refl refl] True by blast
    then show ?thesis
      using True by (subst load_loop.simps) (simp add: Let_def)
  next
    case False
    then show ?thesis by (subst load_loop.simps) (auto simp add: Let_def)
  qed
qed

lemma announced_refl: "announced st st"
  by (simp add: announced_def)

lemma announced_trans:
  assumes "announced st st1" "announced st1 st2"
  shows "announced st st2"
proof -
  obtain evs1 where 1: "serial st1 = serial st @ evs1"
    "eeprom st1 \<noteq> eeprom st \<longrightarrow> (\<exists>ev\<in>set evs1. writes ev)"
    using assms(1) by (auto simp add: announced_def)
  obtain evs2 where 2: "serial st2 = serial st1 @ evs2"
    "eeprom st2 \<noteq> eeprom st1 \<longrightarrow> (\<exists>ev\<in>set evs2. writes ev)"
    using assms(2) by (auto simp add: announced_def)
  have "serial st2 = serial st @ (evs1 @ evs2)" using 1 2 by simp
  moreover have "eeprom st2 \<noteq> eeprom st \<longrightarrow> (\<exists>ev\<in>set (evs1 @ evs2). writes ev)"
    using 1 2 by auto
  ultimately show ?thesis unfolding announced_def by blast
qed

lemma announced_same_eeprom:
  "serial st' = serial st @ evs \<Longrightarrow> eeprom st' = eeprom st \<Longrightarrow> announced st st'"
  by (auto simp add: announced_def)

lemma announced_toggle_button: "announced st (toggle_button st inp)"
proof -
  have "eeprom (toggle_button st inp) = eeprom st"
    by (simp add: toggle_button_def say_def Let_def)
  moreover have "\<exists>evs. serial (toggle_button st inp) = serial st @ evs"
    by (simp add: toggle_button_def say_def Let_def)
  ultimately show ?thesis by (auto intro: announced_same_eeprom)
qed

lemma announced_store_reading: "announced st (store_reading st t1 t2)"
  by (auto simp add: announced_def store_reading_def say_def Let_def)

lemma announced_read_temperatures: "announced st (fst (read_temperatures st inp))"
proof -
  let ?st1 = "st\<lparr>previousMillis := millis1 inp\<rparr>"
  let ?t1 = "temperatureF1 inp" and ?t2 = "temperatureF2 inp"
  have a: "announced st ?st1" by (simp add: announced_def)
  have b: "announced ?st1 (store_reading ?st1 ?t1 ?t2)" by (rule announced_store_reading)
  have c: "announced (store_reading ?st1 ?t1 ?t2)
     (say [CurrentTemperature ?t1 ?t2] (store_reading ?st1 ?t1 ?t2))"
    by (simp add: announced_def say_def)
  have d: "announced st (say [CurrentTemperature ?t1 ?t2] (store_reading ?st1 ?t1 ?t2))"
    using a b c by (blast intro: announced_trans)
  have e: "announced st (say evs ?st1)" for evs
    by (simp add: announced_def say_def)
  show ?thesis
    using d e by (simp add: read_temperatures_def Let_def announced_refl)
qed

lemma announced_load_data: "announced st (load_data st)"
proof -
  obtain s out where l: "load_loop (eeprom st) (readingIndex st) 0
      (init_stats, serial st @ [LoadingData]) = (s, out)"
    by (cases "load_loop (eeprom st) (readingIndex st) 0 (init_stats, serial st @ [LoadingData])")
  obtain evs where "out = (serial st @ [LoadingData]) @ evs"
    using load_loop_out [of "eeprom st" "readingIndex st" 0 init_stats "serial st @ [LoadingData]"] l
    by auto
  then show ?thesis
    by (simp add: load_data_def l announced_def)
qed

lemma announced_erase_data: "announced st (erase_data st)"
  by (simp add: announced_def erase_data_def say_def Let_def)

lemma announced_load_button: "announced st (load_button st inp)"
proof -
  let ?st1 = "(say [LoadButtonPressed] st)
      \<lparr>buttonPressStartTime := millis2 inp, eraseMode := False\<rparr>"
  have a: "announced st ?st1" by (simp add: announced_def say_def)
  have b: "announced st (erase_data ?st1)"
    using a announced_erase_data by (blast intro: announced_trans)
  have c: "announced st ((load_data st)\<lparr>buttonPressStartTime := 0\<rparr>)"
    using announced_load_data [of st] by (simp add: announced_def)
  have d: "announced st (st\<lparr>buttonPressStartTime := 0\<rparr>)" by (simp add: announced_def)
  show ?thesis
    using a b c d announced_erase_data [of st]
    by (simp add: load_button_def Let_def announced_refl)
qed

lemma announced_loop: "announced st (loop st inp)"
proof -
  have a: "announced st (fst (read_temperatures (toggle_button st inp) inp))"
    using announced_toggle_button announced_read_temperatures by (blast intro: announced_trans)
  then have b: "announced st (load_button (fst (read_temperatures (toggle_button st inp) inp)) inp)"
    using announced_load_button by (blast intro: announced_trans)
  show ?thesis
    using a b by (cases "read_temperatures (toggle_button st inp) inp") (simp add: loop_def)
qed

lemma announced_run: "announced st (run st inps)"
proof (induction inps arbitrary: st)
  case Nil
  show ?case by (simp add: announced_refl)
next
  case (Cons inp inps)
  show ?case
    using announced_loop [of st inp] Cons [of "loop st inp"]
    by (auto intro: announced_trans)
qed

section \<open>A session from start to replay\<close>

text \<open>
  On an erased device the session stores (70, 72), (74, 76) and (77, 79), rejects
  (200, 76), and the replay reports the highest values 77 and 79, the averages 73 and
  75, the count 3 and the temperature differences 7.
\<close>

lemma scenario_serial:
  "serial (run (idle_state blank_device) scenario) =
     [Initialized 0, LoggingStarted,
      Stored 70 72 4 6, CurrentTemperature 70 72,
      Stored 74 76 8 10, CurrentTemperature 74 76,
      AnomalousReading,
      Stored 77 79 12 14, CurrentTemperature 77 79,
      LoadButtonPressed, LoadingData, Line 70 72, Line 74 76, Line 77 79, LoadingComplete,
      HighestTemperature 1 77, AverageTemperature 1 73, MeasurementsCount 1 3,
      TotalEnergyCollected 1 7,
      HighestTemperature 2 79, AverageTemperature 2 75, MeasurementsCount 2 3,
      TotalEnergyCollected 2 7]"
  by code_simp

section \<open>The anomaly filter\<close>

lemma sint_diff_fits: "diff_fits a b \<Longrightarrow> sint (a - b) = sint a - sint b"
  by (simp add: diff_fits_def sint_word_ariths signed_take_bit_int_eq_self)

lemma sint_c_abs: "diff_fits a b \<Longrightarrow> sint (c_abs (a - b)) = \<bar>sint a - sint b\<bar>"
  by (simp add: c_abs_def sint_diff_fits)
    (simp add: diff_fits_def sint_word_ariths signed_take_bit_int_eq_self)

lemma previous_index:
  "0 < sint (idx :: int16) \<Longrightarrow> word_of_nat (nat (sint idx) - Suc 0) = idx - 1"
proof -
  assume a: "0 < sint idx"
  then have "nat (sint idx) - 1 = nat (sint idx - 1)" by simp
  then have "(word_of_nat (nat (sint idx) - 1) :: int16) = word_of_int (sint idx - 1)"
    using a by (simp add: word_of_int_nat [symmetric])
  then show ?thesis by simp
qed

text \<open>
  C2: the anomaly filter accepts every candidate when no record is stored yet
  (\<^verbatim>\<open>readingIndex\<close> is not positive). With a previous record, the one at index
  \<^verbatim>\<open>readingIndex - 1\<close>, it accepts exactly when the absolute difference to the previous
  value is at most 10 on both channels; so a difference of 10 is accepted and one of 11
  is rejected. The differences are those of the C++ \<^verbatim>\<open>int\<close> subtraction, which is
  defined when they do not overflow.
\<close>

theorem anomaly_filter_decision:
  "(sint idx \<le> 0 \<longrightarrow> \<not> anomalous e idx t1 t2) \<and>
   (0 < sint idx \<and> record_at e (nat (sint idx) - 1) = (p1, p2) \<and>
    diff_fits t1 p1 \<and> diff_fits t2 p2 \<longrightarrow>
      (\<not> anomalous e idx t1 t2) =
      (\<bar>sint t1 - sint p1\<bar> \<le> 10 \<and> \<bar>sint t2 - sint p2\<bar> \<le> 10))"
proof (intro conjI impI)
  assume "sint idx \<le> 0"
  then show "\<not> anomalous e idx t1 t2" by (simp add: anomalous_def)
next
  assume a: "0 < sint idx \<and> record_at e (nat (sint idx) - 1) = (p1, p2) \<and>
    diff_fits t1 p1 \<and> diff_fits t2 p2"
  then have p: "EEPROM_get e (eepromStartAddress + (idx - 1) * 4) = p1"
    "EEPROM_get e (eepromStartAddress + (idx - 1) * 4 + 2) = p2"
    using previous_index [of idx] by (simp_all add: record_at_def Let_def)
  show "(\<not> anomalous e idx t1 t2) =
      (\<bar>sint t1 - sint p1\<bar> \<le> 10 \<and> \<bar>sint t2 - sint p2\<bar> \<le> 10)"
    using a p by (auto simp add: anomalous_def Let_def sint_c_abs anomalyThreshold_def)
qed

text \<open>
  With no record any candidate passes; after (74, 76) the candidate (84, 66), 10 away
  on both channels, passes, and (85, 76), 11 away on the first, does not.
\<close>

theorem anomaly_filter_decision_witness:
  "sint (0 :: int16) \<le> 0 \<and> \<not> anomalous logged_device 0 200 (- 50) \<and>
   0 < sint (2 :: int16) \<and> record_at logged_device (nat (sint (2 :: int16)) - 1) = (74, 76) \<and>
   diff_fits 84 74 \<and> diff_fits 66 76 \<and> \<not> anomalous logged_device 2 84 66 \<and>
   diff_fits 85 74 \<and> diff_fits 76 76 \<and> anomalous logged_device 2 85 76"
proof -
  have h0: "sint (0 :: int16) \<le> 0" by simp
  have h1: "0 < sint (2 :: int16) \<and>
    record_at logged_device (nat (sint (2 :: int16)) - 1) = (74, 76) \<and>
    diff_fits 84 74 \<and> diff_fits 66 76"
    by code_simp
  have h2: "0 < sint (2 :: int16) \<and>
    record_at logged_device (nat (sint (2 :: int16)) - 1) = (74, 76) \<and>
    diff_fits 85 74 \<and> diff_fits 76 76"
    by code_simp
  have v1: "\<bar>sint (84 :: int16) - sint (74 :: int16)\<bar> \<le> 10 \<and>
    \<bar>sint (66 :: int16) - sint (76 :: int16)\<bar> \<le> 10"
    by simp
  have v2: "\<not> (\<bar>sint (85 :: int16) - sint (74 :: int16)\<bar> \<le> 10 \<and>
    \<bar>sint (76 :: int16) - sint (76 :: int16)\<bar> \<le> 10)"
    by simp
  have c0: "\<not> anomalous logged_device 0 200 (- 50)"
    using anomaly_filter_decision [of 0 logged_device 200 "- 50"] h0 by blast
  have c1: "\<not> anomalous logged_device 2 84 66"
    using anomaly_filter_decision [of 2 logged_device 84 66 74 76] h1 v1 by blast
  have c2: "anomalous logged_device 2 85 76"
    using anomaly_filter_decision [of 2 logged_device 85 76 74 76] h2 v2 by blast
  show ?thesis using h0 h1 h2 c0 c1 c2 by blast
qed

section \<open>A full store\<close>

text \<open>
  C3: when \<^verbatim>\<open>readingIndex\<close> equals \<^verbatim>\<open>maxReadings\<close> (60), storing a reading fails: the
  sketch prints that the maximum is reached and leaves the session (\<^verbatim>\<open>logging\<close>
  becomes false), and neither the EEPROM nor \<^verbatim>\<open>readingIndex\<close> changes. So does the
  sampling pass that gets there, with a reading the anomaly check lets through.
\<close>

theorem full_store_stops_logging:
  assumes "readingIndex st = maxReadings"
  shows "store_reading st t1 t2 = (say [MaximumReadingsReached] st)\<lparr>logging := False\<rparr> \<and>
         (logging st \<and> readDelay \<le> millis1 inp - previousMillis st \<and>
          0 < sint (analogValue1 inp) \<and> 0 < sint (analogValue2 inp) \<and>
          \<not> anomalous (eeprom st) (readingIndex st) (temperatureF1 inp) (temperatureF2 inp) \<longrightarrow>
          read_temperatures st inp =
            (st\<lparr>serial := serial st @ [MaximumReadingsReached,
                    CurrentTemperature (temperatureF1 inp) (temperatureF2 inp)],
                logging := False, previousMillis := millis1 inp\<rparr>, False))"
  using assms by (simp add: store_reading_def read_temperatures_def say_def Let_def)

theorem full_store_stops_logging_witness:
  "readingIndex (logging_state full_device) = maxReadings \<and>
   logging (logging_state full_device) \<and>
   readDelay \<le> millis1 (sample_pass 200000 75 70) - previousMillis (logging_state full_device) \<and>
   0 < sint (analogValue1 (sample_pass 200000 75 70)) \<and>
   0 < sint (analogValue2 (sample_pass 200000 75 70)) \<and>
   \<not> anomalous (eeprom (logging_state full_device)) (readingIndex (logging_state full_device))
       (temperatureF1 (sample_pass 200000 75 70)) (temperatureF2 (sample_pass 200000 75 70)) \<and>
   \<not> logging (fst (read_temperatures (logging_state full_device) (sample_pass 200000 75 70))) \<and>
   readingIndex (fst (read_temperatures (logging_state full_device) (sample_pass 200000 75 70)))
     = 60 \<and>
   eeprom (fst (read_temperatures (logging_state full_device) (sample_pass 200000 75 70)))
     = full_device \<and>
   serial (fst (read_temperatures (logging_state full_device) (sample_pass 200000 75 70))) =
     [Initialized 60, MaximumReadingsReached, CurrentTemperature 75 70]"
proof -
  let ?st = "logging_state full_device"
  let ?inp = "sample_pass 200000 75 70"
  have h1: "readingIndex ?st = maxReadings"
    by code_simp
  have h2: "logging ?st \<and> readDelay \<le> millis1 ?inp - previousMillis ?st \<and>
          0 < sint (analogValue1 ?inp) \<and> 0 < sint (analogValue2 ?inp) \<and>
          \<not> anomalous (eeprom ?st) (readingIndex ?st) (temperatureF1 ?inp) (temperatureF2 ?inp)"
    by code_simp
  have v: "readingIndex ?st = 60 \<and> eeprom ?st = full_device \<and> serial ?st = [Initialized 60] \<and>
    temperatureF1 ?inp = 75 \<and> temperatureF2 ?inp = 70"
    by code_simp
  have "read_temperatures ?st ?inp =
            (?st\<lparr>serial := serial ?st @ [MaximumReadingsReached,
                    CurrentTemperature (temperatureF1 ?inp) (temperatureF2 ?inp)],
                logging := False, previousMillis := millis1 ?inp\<rparr>, False)"
    using full_store_stops_logging [OF h1, of _ _ ?inp] h2 by blast
  then show ?thesis
    using h1 h2 v by simp
qed

section \<open>A sensor fault\<close>

text \<open>
  C8: in a sampling pass where an analog value is not positive, the sketch prints a
  diagnostic for each such channel, at least one, and skips the sample: the serial
  output grows by these diagnostics, the time of the last sample is set, and nothing
  else changes, so nothing is stored, \<^verbatim>\<open>readingIndex\<close> is unchanged and the session
  goes on. The anomaly check is not run: the outcome is the
  same for any content of the EEPROM and any converted temperatures.
\<close>

theorem sensor_fault_skips_sample:
  assumes "logging st" "readDelay \<le> millis1 inp - previousMillis st"
    "sint (analogValue1 inp) \<le> 0 \<or> sint (analogValue2 inp) \<le> 0"
  shows "let diag = (if sint (analogValue1 inp) \<le> 0 then [Thermistor1Zero] else []) @
                    (if sint (analogValue2 inp) \<le> 0 then [Thermistor2Zero] else [])
         in diag \<noteq> [] \<and>
            read_temperatures st inp =
              (st\<lparr>serial := serial st @ diag, previousMillis := millis1 inp\<rparr>, False) \<and>
            serial (fst (read_temperatures st inp)) = serial st @ diag \<and>
            eeprom (fst (read_temperatures st inp)) = eeprom st \<and>
            readingIndex (fst (read_temperatures st inp)) = readingIndex st \<and>
            logging (fst (read_temperatures st inp)) \<and>
            read_temperatures (st\<lparr>eeprom := e'\<rparr>)
                (inp\<lparr>temperatureF1 := x, temperatureF2 := y\<rparr>) =
              (st\<lparr>eeprom := e', serial := serial st @ diag, previousMillis := millis1 inp\<rparr>,
               False)"
  using assms by (auto simp add: read_temperatures_def say_def Let_def)

text \<open>
  In a session on a board with two records, a pass whose first analog value is 0
  prints the diagnostic of the first thermistor and nothing else.
\<close>

theorem sensor_fault_skips_sample_witness:
  "logging (logging_state logged_device) \<and>
   readDelay \<le> millis1 ((sample_pass 200000 0 0)\<lparr>analogValue1 := 0\<rparr>)
      - previousMillis (logging_state logged_device) \<and>
   (sint (analogValue1 ((sample_pass 200000 0 0)\<lparr>analogValue1 := 0\<rparr>)) \<le> 0 \<or>
    sint (analogValue2 ((sample_pass 200000 0 0)\<lparr>analogValue1 := 0\<rparr>)) \<le> 0) \<and>
   serial (fst (read_temperatures (logging_state logged_device)
       ((sample_pass 200000 0 0)\<lparr>analogValue1 := 0\<rparr>))) = [Initialized 2, Thermistor1Zero] \<and>
   eeprom (fst (read_temperatures (logging_state logged_device)
       ((sample_pass 200000 0 0)\<lparr>analogValue1 := 0\<rparr>))) = logged_device \<and>
   readingIndex (fst (read_temperatures (logging_state logged_device)
       ((sample_pass 200000 0 0)\<lparr>analogValue1 := 0\<rparr>))) = 2 \<and>
   logging (fst (read_temperatures (logging_state logged_device)
       ((sample_pass 200000 0 0)\<lparr>analogValue1 := 0\<rparr>))) \<and>
   \<not> snd (read_temperatures (logging_state logged_device)
       ((sample_pass 200000 0 0)\<lparr>analogValue1 := 0\<rparr>))"
proof -
  let ?st = "logging_state logged_device"
  let ?inp = "(sample_pass 200000 0 0)\<lparr>analogValue1 := 0\<rparr>"
  let ?diag = "(if sint (analogValue1 ?inp) \<le> 0 then [Thermistor1Zero] else []) @
               (if sint (analogValue2 ?inp) \<le> 0 then [Thermistor2Zero] else [])"
  have h1: "logging ?st" by code_simp
  have h2: "readDelay \<le> millis1 ?inp - previousMillis ?st" by code_simp
  have h3: "sint (analogValue1 ?inp) \<le> 0 \<or> sint (analogValue2 ?inp) \<le> 0" by code_simp
  have v: "?diag = [Thermistor1Zero]" "serial ?st = [Initialized 2]" "readingIndex ?st = 2"
    by code_simp+
  note t = sensor_fault_skips_sample [OF h1 h2 h3, of full_device 90 90, unfolded Let_def]
  have r: "read_temperatures ?st ?inp =
      (?st\<lparr>serial := serial ?st @ ?diag, previousMillis := millis1 ?inp\<rparr>, False)"
    using t by blast
  have c1: "serial (fst (read_temperatures ?st ?inp)) = [Initialized 2, Thermistor1Zero]"
    using t v by simp
  have c2: "eeprom (fst (read_temperatures ?st ?inp)) = logged_device"
    using t by simp
  have c3: "readingIndex (fst (read_temperatures ?st ?inp)) = 2"
    using t v by simp
  have c4: "logging (fst (read_temperatures ?st ?inp))"
    using t by blast
  have c5: "\<not> snd (read_temperatures ?st ?inp)"
    by (simp add: r)
  show ?thesis using h1 h2 h3 c1 c2 c3 c4 c5 by blast
qed

section \<open>Starting a session\<close>

text \<open>
  C10: the pass that starts a session (the toggle button goes down while the sketch is
  not logging) sets \<^verbatim>\<open>logging\<close> and resets \<^verbatim>\<open>readingIndex\<close> in RAM, and writes nothing
  to the EEPROM: the count stored at address 0 keeps its value, and \<^verbatim>\<open>setup()\<close> after a
  restart at that point finds the count and the records of before. The same holds
  after any number of further passes, as long as none of them has printed that a
  reading was stored or that the data was erased.
\<close>

theorem session_start_keeps_eeprom:
  assumes "\<not> logging st" "lastButtonState st" "\<not> togglePin inp"
  shows "toggle_button st inp =
           st\<lparr>serial := serial st @ [LoggingStarted], logging := True, buttonState := False,
              lastButtonState := False, readingIndex := 0\<rparr> \<and>
         eeprom (toggle_button st inp) = eeprom st \<and>
         EEPROM_get (eeprom (toggle_button st inp)) 0 = EEPROM_get (eeprom st) 0 \<and>
         setup_board (eeprom (toggle_button st inp)) = setup_board (eeprom st) \<and>
         (\<exists>evs. serial (run st (inp # inps)) = serial st @ evs \<and>
            ((\<forall>ev\<in>set evs. \<not> writes ev) \<longrightarrow>
             eeprom (run st (inp # inps)) = eeprom st \<and>
             setup_board (eeprom (run st (inp # inps))) = setup_board (eeprom st)))"
proof -
  have t: "toggle_button st inp =
           st\<lparr>serial := serial st @ [LoggingStarted], logging := True, buttonState := False,
              lastButtonState := False, readingIndex := 0\<rparr>"
    using assms by (simp add: toggle_button_def say_def Let_def)
  have e: "eeprom (toggle_button st inp) = eeprom st" by (simp add: t)
  obtain evs where s: "serial (run st (inp # inps)) = serial st @ evs"
    and w: "eeprom (run st (inp # inps)) \<noteq> eeprom st \<longrightarrow> (\<exists>ev\<in>set evs. writes ev)"
    using announced_run [of st "inp # inps"] unfolding announced_def by blast
  have "(\<forall>ev\<in>set evs. \<not> writes ev) \<longrightarrow>
             eeprom (run st (inp # inps)) = eeprom st \<and>
             setup_board (eeprom (run st (inp # inps))) = setup_board (eeprom st)"
    using w by auto
  then show ?thesis using t e s by (simp del: run.simps)
qed

theorem session_start_keeps_eeprom_witness:
  "\<not> logging (idle_state logged_device) \<and> lastButtonState (idle_state logged_device) \<and>
   \<not> togglePin (toggle_pass 2000) \<and>
   logging (toggle_button (idle_state logged_device) (toggle_pass 2000)) \<and>
   readingIndex (toggle_button (idle_state logged_device) (toggle_pass 2000)) = 0 \<and>
   readingIndex
     (setup_board (eeprom (toggle_button (idle_state logged_device) (toggle_pass 2000)))) = 2 \<and>
   records (eeprom (toggle_button (idle_state logged_device) (toggle_pass 2000))) 2 =
     [(70, 72), (74, 76)] \<and>
   serial (run (idle_state logged_device)
     [toggle_pass 2000, idle_pass 3000, (sample_pass 200000 0 0)\<lparr>analogValue1 := 0\<rparr>]) =
     [Initialized 2, LoggingStarted, Thermistor1Zero] \<and>
   \<not> writes LoggingStarted \<and> \<not> writes Thermistor1Zero \<and>
   readingIndex (setup_board (eeprom (run (idle_state logged_device)
     [toggle_pass 2000, idle_pass 3000, (sample_pass 200000 0 0)\<lparr>analogValue1 := 0\<rparr>]))) = 2"
proof -
  let ?st = "idle_state logged_device"
  let ?inps = "[idle_pass 3000, (sample_pass 200000 0 0)\<lparr>analogValue1 := 0\<rparr>]"
  have h1: "\<not> logging ?st" by code_simp
  have h2: "lastButtonState ?st" by code_simp
  have h3: "\<not> togglePin (toggle_pass 2000)" by code_simp
  have v1: "readingIndex (setup_board (eeprom ?st)) = 2" by code_simp
  have v2: "records (eeprom ?st) 2 = [(70, 72), (74, 76)]" by code_simp
  have v3: "serial ?st = [Initialized 2]" by code_simp
  have v4: "serial (run ?st (toggle_pass 2000 # ?inps)) =
    [Initialized 2, LoggingStarted, Thermistor1Zero]"
    by code_simp
  have v5: "\<not> writes LoggingStarted \<and> \<not> writes Thermistor1Zero" by simp
  note t = session_start_keeps_eeprom [OF h1 h2 h3, of ?inps]
  have c1: "logging (toggle_button ?st (toggle_pass 2000))"
    and c2: "readingIndex (toggle_button ?st (toggle_pass 2000)) = 0"
    using t by simp_all
  have e: "eeprom (toggle_button ?st (toggle_pass 2000)) = eeprom ?st"
    using t by blast
  have c3: "readingIndex (setup_board (eeprom (toggle_button ?st (toggle_pass 2000)))) = 2"
    using e v1 by simp
  have c4: "records (eeprom (toggle_button ?st (toggle_pass 2000))) 2 = [(70, 72), (74, 76)]"
    using e v2 by simp
  obtain evs where s: "serial (run ?st (toggle_pass 2000 # ?inps)) = serial ?st @ evs"
    and w: "(\<forall>ev\<in>set evs. \<not> writes ev) \<longrightarrow>
       setup_board (eeprom (run ?st (toggle_pass 2000 # ?inps))) = setup_board (eeprom ?st)"
    using t by blast
  have "evs = [LoggingStarted, Thermistor1Zero]" using s v3 v4 by simp
  then have "setup_board (eeprom (run ?st (toggle_pass 2000 # ?inps))) = setup_board (eeprom ?st)"
    using w by simp
  then have c5: "readingIndex (setup_board (eeprom (run ?st (toggle_pass 2000 # ?inps)))) = 2"
    using v1 by simp
  show ?thesis using h1 h2 h3 c1 c2 c3 c4 v4 v5 c5 by blast
qed

section \<open>Stored readings and their replay\<close>

text \<open>
  C1: on a device that holds the whole layout, readings stored one after the other
  while the count stays within 60 are read back unchanged: starting from a count of
  \<open>n\<close> (0 at the start of a session), the read of index \<open>n + i\<close> returns the \<open>i\<close>-th
  reading stored, the earlier records are untouched, and a replay prints every record
  as a line, in the order of storage, and after the lines the report: the line that
  the loading is complete and, for each channel, the highest value, the average, the
  count and the energy line, with the values the scan has computed (or, when the count
  is 0, the line that there is no data).
\<close>

theorem stored_readings_are_replayed:
  assumes "device_ok (eeprom st)" "readingIndex st = word_of_nat n" "n + length rs \<le> 60"
  shows "readingIndex (store_all st rs) = word_of_nat (n + length rs) \<and>
         (\<forall>i<length rs. get (store_all st rs) (n + i) = Inr (rs ! i)) \<and>
         (\<forall>j<n. get (store_all st rs) j = Inr (record_at (eeprom st) j)) \<and>
         (let st' = store_all st rs;
              s = fold (scan_step (eeprom st') (readingIndex st')) [0..<n + length rs] init_stats
          in serial (load_data st') =
               serial st' @ [LoadingData] @
               map (\<lambda>(a, b). Line a b) (records (eeprom st) n @ rs) @
               (if n + length rs = 0 then [NoDataToLoad]
                else [LoadingComplete,
                      HighestTemperature 1 (highestTemp1 s),
                      AverageTemperature 1 (average (totalTemp1 s) (readingIndex st')),
                      MeasurementsCount 1 (readingIndex st'),
                      TotalEnergyCollected 1 (c_abs (lastTemp1 s - firstTemp1 s)),
                      HighestTemperature 2 (highestTemp2 s),
                      AverageTemperature 2 (average (totalTemp2 s) (readingIndex st')),
                      MeasurementsCount 2 (readingIndex st'),
                      TotalEnergyCollected 2 (c_abs (lastTemp2 s - firstTemp2 s))]))"
proof -
  let ?st = "store_all st rs"
  let ?m = "n + length rs"
  note s = store_all_records [OF assms]
  have idx: "readingIndex ?st = word_of_nat ?m" and dev: "device_ok (eeprom ?st)"
    and recs: "records (eeprom ?st) ?m = records (eeprom st) n @ rs"
    using s by simp_all
  have at: "record_at (eeprom ?st) k = (records (eeprom st) n @ rs) ! k" if "k < ?m" for k
    using nth_records [OF that, of "eeprom ?st"] recs by simp
  have g: "get ?st k = Inr ((records (eeprom st) n @ rs) ! k)" if "k < ?m" for k
    using that get_in_range [OF dev idx assms(3) that] at by simp
  have g1: "\<forall>i<length rs. get ?st (n + i) = Inr (rs ! i)"
    using g by (simp add: nth_append)
  have g2: "\<forall>j<n. get ?st j = Inr (record_at (eeprom st) j)"
    using g by (simp add: nth_append nth_records)
  have "sint (word_of_nat ?m :: int16) = int ?m"
    using assms(3) by (intro sint_index) simp
  then have pos: "(0 < sint (readingIndex ?st)) = (?m \<noteq> 0)"
    unfolding idx by (cases rs) auto
  have r: "serial (load_data ?st) =
           serial ?st @ [LoadingData] @ map (\<lambda>(a, b). Line a b) (records (eeprom st) n @ rs) @
           report (readingIndex ?st)
             (fold (scan_step (eeprom ?st) (readingIndex ?st)) [0..<?m] init_stats)"
    using load_data_replay [OF dev idx assms(3)] recs by simp
  have r': "let st' = store_all st rs;
              s = fold (scan_step (eeprom st') (readingIndex st')) [0..<n + length rs] init_stats
          in serial (load_data st') =
               serial st' @ [LoadingData] @
               map (\<lambda>(a, b). Line a b) (records (eeprom st) n @ rs) @
               (if n + length rs = 0 then [NoDataToLoad]
                else [LoadingComplete,
                      HighestTemperature 1 (highestTemp1 s),
                      AverageTemperature 1 (average (totalTemp1 s) (readingIndex st')),
                      MeasurementsCount 1 (readingIndex st'),
                      TotalEnergyCollected 1 (c_abs (lastTemp1 s - firstTemp1 s)),
                      HighestTemperature 2 (highestTemp2 s),
                      AverageTemperature 2 (average (totalTemp2 s) (readingIndex st')),
                      MeasurementsCount 2 (readingIndex st'),
                      TotalEnergyCollected 2 (c_abs (lastTemp2 s - firstTemp2 s))])"
    unfolding Let_def r report_def using pos by (simp add: Let_def)
  show ?thesis using idx g1 g2 r' by blast
qed

text \<open>
  Three readings stored on an erased device come back at indices 0, 1 and 2, and the
  replay prints them in that order and then the report, with the count 3; with nothing
  stored the replay prints that there is no data.
\<close>

theorem stored_readings_are_replayed_witness:
  "device_ok (eeprom (logging_state blank_device)) \<and>
   readingIndex (logging_state blank_device) = word_of_nat 0 \<and>
   0 + length [(70, 72), (74, 76), (77, 79) :: int16 \<times> int16] \<le> 60 \<and>
   0 + length ([] :: (int16 \<times> int16) list) \<le> 60 \<and>
   get (store_all (logging_state blank_device) [(70, 72), (74, 76), (77, 79)]) 0 = Inr (70, 72) \<and>
   get (store_all (logging_state blank_device) [(70, 72), (74, 76), (77, 79)]) 1 = Inr (74, 76) \<and>
   get (store_all (logging_state blank_device) [(70, 72), (74, 76), (77, 79)]) 2 = Inr (77, 79) \<and>
   serial (load_data (store_all (logging_state blank_device) [(70, 72), (74, 76), (77, 79)])) =
     [Initialized 0, Stored 70 72 4 6, Stored 74 76 8 10, Stored 77 79 12 14,
      LoadingData, Line 70 72, Line 74 76, Line 77 79, LoadingComplete,
      HighestTemperature 1 77, AverageTemperature 1 73, MeasurementsCount 1 3,
      TotalEnergyCollected 1 7,
      HighestTemperature 2 79, AverageTemperature 2 75, MeasurementsCount 2 3,
      TotalEnergyCollected 2 7] \<and>
   serial (load_data (store_all (logging_state blank_device) [])) =
     [Initialized 0, LoadingData, NoDataToLoad]"
proof -
  let ?st = "logging_state blank_device"
  let ?rs = "[(70, 72), (74, 76), (77, 79) :: int16 \<times> int16]"
  let ?st' = "store_all ?st ?rs"
  let ?s = "fold (scan_step (eeprom ?st') (readingIndex ?st')) [0..<0 + length ?rs] init_stats"
  have h1: "device_ok (eeprom ?st)" by simp
  have h2: "readingIndex ?st = word_of_nat 0" by code_simp
  have h3: "0 + length ?rs \<le> 60" by simp
  have h4: "0 + length ([] :: (int16 \<times> int16) list) \<le> 60" by simp
  note t = stored_readings_are_replayed [OF h1 h2 h3]
  note t0 = stored_readings_are_replayed [OF h1 h2 h4]
  have g: "\<forall>i<length ?rs. get ?st' (0 + i) = Inr (?rs ! i)"
    using t by blast
  have g0: "get ?st' 0 = Inr (70, 72)" using g [rule_format, of 0] by simp
  have g1: "get ?st' 1 = Inr (74, 76)" using g [rule_format, of 1] by simp
  have g2: "get ?st' 2 = Inr (77, 79)"
    using g [rule_format, of 2] by (simp add: numeral_2_eq_2)
  have ser: "serial (load_data ?st') =
               serial ?st' @ [LoadingData] @
               map (\<lambda>(a, b). Line a b) (records (eeprom ?st) 0 @ ?rs) @
               (if 0 + length ?rs = 0 then [NoDataToLoad]
                else [LoadingComplete,
                      HighestTemperature 1 (highestTemp1 ?s),
                      AverageTemperature 1 (average (totalTemp1 ?s) (readingIndex ?st')),
                      MeasurementsCount 1 (readingIndex ?st'),
                      TotalEnergyCollected 1 (c_abs (lastTemp1 ?s - firstTemp1 ?s)),
                      HighestTemperature 2 (highestTemp2 ?s),
                      AverageTemperature 2 (average (totalTemp2 ?s) (readingIndex ?st')),
                      MeasurementsCount 2 (readingIndex ?st'),
                      TotalEnergyCollected 2 (c_abs (lastTemp2 ?s - firstTemp2 ?s))])"
    using t unfolding Let_def by blast
  have val: "serial ?st' @ [LoadingData] @
               map (\<lambda>(a, b). Line a b) (records (eeprom ?st) 0 @ ?rs) @
               (if 0 + length ?rs = 0 then [NoDataToLoad]
                else [LoadingComplete,
                      HighestTemperature 1 (highestTemp1 ?s),
                      AverageTemperature 1 (average (totalTemp1 ?s) (readingIndex ?st')),
                      MeasurementsCount 1 (readingIndex ?st'),
                      TotalEnergyCollected 1 (c_abs (lastTemp1 ?s - firstTemp1 ?s)),
                      HighestTemperature 2 (highestTemp2 ?s),
                      AverageTemperature 2 (average (totalTemp2 ?s) (readingIndex ?st')),
                      MeasurementsCount 2 (readingIndex ?st'),
                      TotalEnergyCollected 2 (c_abs (lastTemp2 ?s - firstTemp2 ?s))]) =
     [Initialized 0, Stored 70 72 4 6, Stored 74 76 8 10, Stored 77 79 12 14,
      LoadingData, Line 70 72, Line 74 76, Line 77 79, LoadingComplete,
      HighestTemperature 1 77, AverageTemperature 1 73, MeasurementsCount 1 3,
      TotalEnergyCollected 1 7,
      HighestTemperature 2 79, AverageTemperature 2 75, MeasurementsCount 2 3,
      TotalEnergyCollected 2 7]"
    by code_simp
  have c: "serial (load_data ?st') =
     [Initialized 0, Stored 70 72 4 6, Stored 74 76 8 10, Stored 77 79 12 14,
      LoadingData, Line 70 72, Line 74 76, Line 77 79, LoadingComplete,
      HighestTemperature 1 77, AverageTemperature 1 73, MeasurementsCount 1 3,
      TotalEnergyCollected 1 7,
      HighestTemperature 2 79, AverageTemperature 2 75, MeasurementsCount 2 3,
      TotalEnergyCollected 2 7]"
    using ser val by (rule trans)
  have v0: "serial ?st = [Initialized 0]" by code_simp
  have c0: "serial (load_data (store_all ?st [])) = [Initialized 0, LoadingData, NoDataToLoad]"
    using t0 v0 by (simp add: Let_def records_def)
  show ?thesis using h1 h2 h3 h4 g0 g1 g2 c c0 by blast
qed

section \<open>The first reading of a session\<close>

text \<open>
  C4: whatever the count was, the pass that starts a session sets \<^verbatim>\<open>readingIndex\<close> to 0,
  so the readings stored from then on are records 0, 1, 2 and so on; the first sampling
  pass of the session stores its reading as record 0 without an anomaly check.
\<close>

theorem session_start_appends_from_zero:
  assumes "\<not> logging st" "lastButtonState st" "\<not> togglePin inp" "device_ok (eeprom st)"
    "length rs \<le> 60"
  shows "logging (toggle_button st inp) \<and> readingIndex (toggle_button st inp) = 0 \<and>
         readingIndex (store_all (toggle_button st inp) rs) = word_of_nat (length rs) \<and>
         (\<forall>i<length rs. get (store_all (toggle_button st inp) rs) i = Inr (rs ! i)) \<and>
         (readDelay \<le> millis1 inp' - previousMillis st \<and>
          0 < sint (analogValue1 inp') \<and> 0 < sint (analogValue2 inp') \<longrightarrow>
          fst (read_temperatures (toggle_button st inp) inp') =
            say [CurrentTemperature (temperatureF1 inp') (temperatureF2 inp')]
              (store_reading ((toggle_button st inp)\<lparr>previousMillis := millis1 inp'\<rparr>)
                 (temperatureF1 inp') (temperatureF2 inp')) \<and>
          get (fst (read_temperatures (toggle_button st inp) inp')) 0 =
            Inr (temperatureF1 inp', temperatureF2 inp'))"
proof -
  let ?st = "toggle_button st inp"
  have t: "?st = st\<lparr>serial := serial st @ [LoggingStarted], logging := True, buttonState := False,
              lastButtonState := False, readingIndex := 0\<rparr>"
    using assms by (simp add: toggle_button_def say_def Let_def)
  have l: "logging ?st" and i0: "readingIndex ?st = word_of_nat 0" and d: "device_ok (eeprom ?st)"
    and pm: "previousMillis ?st = previousMillis st"
    using assms by (simp_all add: t)
  have len: "0 + length rs \<le> 60" using assms by simp
  note s = store_all_records [OF d i0 len]
  have idx: "readingIndex (store_all ?st rs) = word_of_nat (length rs)"
    and dev: "device_ok (eeprom (store_all ?st rs))"
    and recs: "records (eeprom (store_all ?st rs)) (length rs) = rs"
    using s by (simp_all add: records_def)
  have g: "\<forall>i<length rs. get (store_all ?st rs) i = Inr (rs ! i)"
  proof (intro allI impI)
    fix i assume i: "i < length rs"
    have "record_at (eeprom (store_all ?st rs)) i = rs ! i"
      using nth_records [OF i, of "eeprom (store_all ?st rs)"] recs by simp
    then show "get (store_all ?st rs) i = Inr (rs ! i)"
      using get_in_range [OF dev idx assms(5) i] by simp
  qed
  have first: "fst (read_temperatures ?st inp') =
            say [CurrentTemperature (temperatureF1 inp') (temperatureF2 inp')]
              (store_reading (?st\<lparr>previousMillis := millis1 inp'\<rparr>)
                 (temperatureF1 inp') (temperatureF2 inp')) \<and>
          get (fst (read_temperatures ?st inp')) 0 = Inr (temperatureF1 inp', temperatureF2 inp')"
    if a: "readDelay \<le> millis1 inp' - previousMillis st \<and>
          0 < sint (analogValue1 inp') \<and> 0 < sint (analogValue2 inp')"
  proof -
    let ?st1 = "?st\<lparr>previousMillis := millis1 inp'\<rparr>"
    let ?t1 = "temperatureF1 inp'" and ?t2 = "temperatureF2 inp'"
    have na: "\<not> anomalous (eeprom ?st1) (readingIndex ?st1) ?t1 ?t2"
      by (simp add: t anomalous_def)
    have r: "read_temperatures ?st inp' =
       (say [CurrentTemperature ?t1 ?t2] (store_reading ?st1 ?t1 ?t2), False)"
      using a l pm na by (simp add: read_temperatures_def Let_def)
    have d1: "device_ok (eeprom ?st1)" and i1: "readingIndex ?st1 = word_of_nat 0"
      using d i0 by simp_all
    have sr: "store_reading ?st1 ?t1 ?t2 =
       say [Stored ?t1 ?t2 (eepromStartAddress + word_of_nat 0 * 4)
              (eepromStartAddress + word_of_nat 0 * 4 + 2)]
         (?st1\<lparr>eeprom := put_record (eeprom ?st1) 0 ?t1 ?t2, readingIndex := word_of_nat 0 + 1\<rparr>)"
      using store_reading_ok [OF d1 i1] by simp
    let ?st2 = "fst (read_temperatures ?st inp')"
    have e2: "eeprom ?st2 = put_record (eeprom ?st1) 0 ?t1 ?t2"
      and i2: "readingIndex ?st2 = word_of_nat 1"
      by (simp_all add: r sr say_def)
    have d2: "device_ok (eeprom ?st2)" using d1 by (simp add: e2)
    have "get ?st2 0 = Inr (record_at (eeprom ?st2) 0)"
      using get_in_range [OF d2 i2] by simp
    also have "record_at (eeprom ?st2) 0 = (?t1, ?t2)"
      using record_at_put_record_same [OF d1, of 0 ?t1 ?t2] by (simp add: e2)
    finally show ?thesis using r by simp
  qed
  have i00: "readingIndex ?st = 0" by (simp add: t)
  show ?thesis using l i00 idx g first by blast
qed

text \<open>
  A board with a count of 2: after the start of a session two readings stored are
  records 0 and 1, and the reading of the first sampling pass is record 0.
\<close>

theorem session_start_appends_from_zero_witness:
  "\<not> logging (idle_state logged_device) \<and> lastButtonState (idle_state logged_device) \<and>
   \<not> togglePin (toggle_pass 2000) \<and> device_ok (eeprom (idle_state logged_device)) \<and>
   length [(90, 91), (92, 93) :: int16 \<times> int16] \<le> 60 \<and>
   EEPROM_get (eeprom (idle_state logged_device)) 0 = 2 \<and>
   readingIndex (toggle_button (idle_state logged_device) (toggle_pass 2000)) = 0 \<and>
   get (store_all (toggle_button (idle_state logged_device) (toggle_pass 2000))
          [(90, 91), (92, 93)]) 0 = Inr (90, 91) \<and>
   get (store_all (toggle_button (idle_state logged_device) (toggle_pass 2000))
          [(90, 91), (92, 93)]) 1 = Inr (92, 93) \<and>
   readDelay \<le> millis1 (sample_pass 200000 90 91) - previousMillis (idle_state logged_device) \<and>
   0 < sint (analogValue1 (sample_pass 200000 90 91)) \<and>
   0 < sint (analogValue2 (sample_pass 200000 90 91)) \<and>
   get (fst (read_temperatures (toggle_button (idle_state logged_device) (toggle_pass 2000))
          (sample_pass 200000 90 91))) 0 = Inr (90, 91)"
proof -
  let ?st = "idle_state logged_device"
  let ?inp = "toggle_pass 2000"
  let ?inp' = "sample_pass 200000 90 91"
  let ?rs = "[(90, 91), (92, 93) :: int16 \<times> int16]"
  have h1: "\<not> logging ?st" by code_simp
  have h2: "lastButtonState ?st" by code_simp
  have h3: "\<not> togglePin ?inp" by code_simp
  have h4: "device_ok (eeprom ?st)" by simp
  have h5: "length ?rs \<le> 60" by simp
  have h6: "readDelay \<le> millis1 ?inp' - previousMillis ?st \<and>
    0 < sint (analogValue1 ?inp') \<and> 0 < sint (analogValue2 ?inp')"
    by code_simp
  have v: "EEPROM_get (eeprom ?st) 0 = 2" "temperatureF1 ?inp' = 90" "temperatureF2 ?inp' = 91"
    by code_simp+
  note t = session_start_appends_from_zero [OF h1 h2 h3 h4 h5, of ?inp']
  have c1: "readingIndex (toggle_button ?st ?inp) = 0" using t by blast
  have g: "\<forall>i<length ?rs. get (store_all (toggle_button ?st ?inp) ?rs) i = Inr (?rs ! i)"
    using t by blast
  have g0: "get (store_all (toggle_button ?st ?inp) ?rs) 0 = Inr (90, 91)"
    using g [rule_format, of 0] by simp
  have g1: "get (store_all (toggle_button ?st ?inp) ?rs) 1 = Inr (92, 93)"
    using g [rule_format, of 1] by simp
  have "get (fst (read_temperatures (toggle_button ?st ?inp) ?inp')) 0 =
      Inr (temperatureF1 ?inp', temperatureF2 ?inp')"
    using t h6 by blast
  then have c2: "get (fst (read_temperatures (toggle_button ?st ?inp) ?inp')) 0 = Inr (90, 91)"
    using v by simp
  show ?thesis using h1 h2 h3 h4 h5 h6 v(1) c1 g0 g1 c2 by blast
qed

section \<open>Erasing\<close>

declare erase_loop.simps [simp del]

lemma unat_erase_address:
  "i < 240 \<Longrightarrow> unat (eepromStartAddress + word_of_nat i :: int16) = 4 + i"
  by (simp add: eepromStartAddress_def unat_word_ariths unat_of_nat)

lemma erase_loop_stop: "erase_loop 240 e = e"
  by (subst erase_loop.simps) (simp add: maxReadings_def)

lemma erase_loop_cells:
  assumes "device_ok e" "i \<le> 240"
  shows "length (erase_loop i e) = length e \<and>
         (\<forall>a<length e. erase_loop i e ! a = (if 4 + i \<le> a \<and> a < 244 then 0 else e ! a))"
  using assms
proof (induction "240 - i" arbitrary: i e)
  case 0
  then have "i = 240" by simp
  then show ?case
    by (auto simp add: erase_loop_stop)
next
  case (Suc k)
  then have i: "i < 240" and k: "k = 240 - Suc i" and le: "Suc i \<le> 240" by simp_all
  let ?e = "EEPROM_write e (eepromStartAddress + word_of_nat i) 0"
  have d: "device_ok ?e" using Suc.prems by (simp add: device_ok_def)
  have step: "erase_loop i e = erase_loop (Suc i) ?e"
    using i by (subst erase_loop.simps) (simp add: maxReadings_def)
  have w: "?e = e[4 + i := 0]"
    using i Suc.prems by (simp add: EEPROM_write_def unat_erase_address device_ok_def)
  show ?case
    using Suc.hyps(1) [OF k d le] i Suc.prems
    by (auto simp add: step w nth_list_update)
qed

lemma load_loop_empty: "sint n \<le> 0 \<Longrightarrow> load_loop e n 0 (s, out) = (s, out)"
  by (subst load_loop.simps) simp

lemma load_data_empty:
  "sint (readingIndex st) \<le> 0 \<Longrightarrow> serial (load_data st) = serial st @ [LoadingData, NoDataToLoad]"
  by (simp add: load_data_def load_loop_empty report_def)

text \<open>
  C9: on a device that holds the whole layout, erasing sets \<^verbatim>\<open>readingIndex\<close> to 0,
  writes the count 0 to address 0 (so \<^verbatim>\<open>setup()\<close> after a restart reads 0), and
  leaves 0 in every cell of the record region, cells 4 to 243. After it the read of
  index 0 fails with a range error, and a replay prints no record line: it prints that
  there is no data.
\<close>

theorem erase_clears_store:
  assumes "device_ok (eeprom st)"
  shows "readingIndex (erase_data st) = 0 \<and>
         EEPROM_get (eeprom (erase_data st)) 0 = 0 \<and>
         readingIndex (setup_board (eeprom (erase_data st))) = 0 \<and>
         length (eeprom (erase_data st)) = length (eeprom st) \<and>
         (\<forall>a. 4 \<le> a \<and> a < 244 \<longrightarrow> eeprom (erase_data st) ! a = 0) \<and>
         get (erase_data st) 0 = Inl RangeError \<and>
         serial (load_data (erase_data st)) =
           serial st @ [ErasingStoredData, DataErased, LoadingData, NoDataToLoad]"
proof -
  let ?e1 = "erase_loop 0 (eeprom st)"
  have e: "eeprom (erase_data st) = EEPROM_put ?e1 0 0"
    and i: "readingIndex (erase_data st) = 0"
    and s: "serial (erase_data st) = serial st @ [ErasingStoredData, DataErased]"
    by (simp_all add: erase_data_def say_def Let_def)
  have l: "length ?e1 = length (eeprom st)"
    and c: "\<forall>a<length (eeprom st). ?e1 ! a = (if 4 + 0 \<le> a \<and> a < 244 then 0 else eeprom st ! a)"
    using erase_loop_cells [OF assms, of 0] by simp_all
  have d1: "device_ok ?e1" using assms l by (simp add: device_ok_def)
  have cnt: "EEPROM_get (eeprom (erase_data st)) 0 = 0"
    using d1 by (simp add: e get_put_same device_ok_def)
  have put: "EEPROM_put ?e1 0 0 = ?e1[0 := 0, 1 := 0]"
    using d1 by (simp add: EEPROM_put_def EEPROM_write_def device_ok_def)
  have cells: "\<forall>a. 4 \<le> a \<and> a < 244 \<longrightarrow> eeprom (erase_data st) ! a = 0"
    using c assms by (simp add: e put device_ok_def)
  have g: "get (erase_data st) 0 = Inl RangeError"
    by (simp add: get_def i)
  have r: "serial (load_data (erase_data st)) =
           serial st @ [ErasingStoredData, DataErased, LoadingData, NoDataToLoad]"
    using load_data_empty [of "erase_data st"] by (simp add: i s)
  show ?thesis
    using i cnt l cells g r by (simp add: setup_board_def e)
qed

theorem erase_clears_store_witness:
  "device_ok (eeprom (idle_state logged_device)) \<and>
   readingIndex (erase_data (idle_state logged_device)) = 0 \<and>
   EEPROM_get (eeprom (erase_data (idle_state logged_device))) 0 = 0 \<and>
   eeprom (erase_data (idle_state logged_device)) ! 4 = 0 \<and>
   eeprom (erase_data (idle_state logged_device)) ! 243 = 0 \<and>
   get (erase_data (idle_state logged_device)) 0 = Inl RangeError \<and>
   serial (load_data (erase_data (idle_state logged_device))) =
     [Initialized 2, ErasingStoredData, DataErased, LoadingData, NoDataToLoad]"
proof -
  let ?st = "idle_state logged_device"
  have h: "device_ok (eeprom ?st)" by simp
  have v: "serial ?st = [Initialized 2]" by code_simp
  note t = erase_clears_store [OF h]
  have c: "\<forall>a. 4 \<le> a \<and> a < 244 \<longrightarrow> eeprom (erase_data ?st) ! a = 0"
    using t by blast
  have c4: "eeprom (erase_data ?st) ! 4 = 0" using c [rule_format, of 4] by simp
  have c243: "eeprom (erase_data ?st) ! 243 = 0" using c [rule_format, of 243] by simp
  have r: "serial (load_data (erase_data ?st)) =
     [Initialized 2, ErasingStoredData, DataErased, LoadingData, NoDataToLoad]"
    using t v by simp
  show ?thesis using h t c4 c243 r by blast
qed

section \<open>Rejected readings\<close>

lemma loop_rejected:
  assumes "logging st" "togglePin inp" "readDelay \<le> millis1 inp - previousMillis st"
    "0 < sint (analogValue1 inp)" "0 < sint (analogValue2 inp)"
    "anomalous (eeprom st) (readingIndex st) (temperatureF1 inp) (temperatureF2 inp)"
  shows "loop st inp =
           st\<lparr>serial := serial st @ [AnomalousReading], buttonState := True,
              lastButtonState := True, previousMillis := millis1 inp\<rparr>"
  using assms
  by (simp add: loop_def toggle_button_def read_temperatures_def say_def Let_def)

text \<open>
  C7: a sampling pass whose reading the anomaly check rejects prints the diagnostic and
  returns: the EEPROM, \<^verbatim>\<open>readingIndex\<close> and \<^verbatim>\<open>logging\<close> are unchanged. Hence in a run of
  sampling passes, each with a reading that is anomalous with respect to the record
  stored last before the run, every reading is rejected, whatever the readings sampled
  in between were, and the next reading is again checked against that same record.
\<close>

theorem rejected_run_keeps_baseline:
  assumes "logging st" "due_each (previousMillis st) inps"
    "\<forall>inp\<in>set inps. togglePin inp \<and> 0 < sint (analogValue1 inp) \<and> 0 < sint (analogValue2 inp) \<and>
       anomalous (eeprom st) (readingIndex st) (temperatureF1 inp) (temperatureF2 inp)"
  shows "eeprom (run st inps) = eeprom st \<and> readingIndex (run st inps) = readingIndex st \<and>
         logging (run st inps) \<and>
         serial (run st inps) = serial st @ replicate (length inps) AnomalousReading \<and>
         anomalous (eeprom (run st inps)) (readingIndex (run st inps)) t1 t2 =
           anomalous (eeprom st) (readingIndex st) t1 t2"
  using assms
proof (induction inps arbitrary: st)
  case Nil
  then show ?case by simp
next
  case (Cons inp inps)
  let ?st1 = "loop st inp"
  have l: "?st1 = st\<lparr>serial := serial st @ [AnomalousReading], buttonState := True,
              lastButtonState := True, previousMillis := millis1 inp\<rparr>"
    using Cons.prems by (simp add: loop_rejected)
  have a: "logging ?st1" using Cons.prems(1) by (simp add: l)
  have b: "due_each (previousMillis ?st1) inps" using Cons.prems(2) by (simp add: l)
  have c: "\<forall>inp\<in>set inps. togglePin inp \<and> 0 < sint (analogValue1 inp) \<and>
       0 < sint (analogValue2 inp) \<and>
       anomalous (eeprom ?st1) (readingIndex ?st1) (temperatureF1 inp) (temperatureF2 inp)"
    using Cons.prems(3) by (simp add: l)
  have e: "eeprom ?st1 = eeprom st" "readingIndex ?st1 = readingIndex st"
    "serial ?st1 = serial st @ [AnomalousReading]"
    by (simp_all add: l)
  show ?case
    using Cons.IH [OF a b c] by (simp add: e replicate_append_same)
qed

text \<open>
  After (74, 76) the readings (95, 76) and (100, 76) are both rejected, although the
  second is within 10 of the first.
\<close>

theorem rejected_run_keeps_baseline_witness:
  "logging (logging_state logged_device) \<and>
   due_each (previousMillis (logging_state logged_device))
     [sample_pass 200000 95 76, sample_pass 400000 100 76] \<and>
   togglePin (sample_pass 200000 95 76) \<and> 0 < sint (analogValue1 (sample_pass 200000 95 76)) \<and>
   0 < sint (analogValue2 (sample_pass 200000 95 76)) \<and>
   anomalous (eeprom (logging_state logged_device)) (readingIndex (logging_state logged_device))
     (temperatureF1 (sample_pass 200000 95 76)) (temperatureF2 (sample_pass 200000 95 76)) \<and>
   togglePin (sample_pass 400000 100 76) \<and> 0 < sint (analogValue1 (sample_pass 400000 100 76)) \<and>
   0 < sint (analogValue2 (sample_pass 400000 100 76)) \<and>
   anomalous (eeprom (logging_state logged_device)) (readingIndex (logging_state logged_device))
     (temperatureF1 (sample_pass 400000 100 76)) (temperatureF2 (sample_pass 400000 100 76)) \<and>
   eeprom (run (logging_state logged_device)
     [sample_pass 200000 95 76, sample_pass 400000 100 76]) = logged_device \<and>
   readingIndex (run (logging_state logged_device)
     [sample_pass 200000 95 76, sample_pass 400000 100 76]) = 2 \<and>
   logging (run (logging_state logged_device)
     [sample_pass 200000 95 76, sample_pass 400000 100 76]) \<and>
   serial (run (logging_state logged_device)
     [sample_pass 200000 95 76, sample_pass 400000 100 76]) =
     [Initialized 2, AnomalousReading, AnomalousReading]"
proof -
  let ?st = "logging_state logged_device"
  let ?a = "sample_pass 200000 95 76"
  let ?b = "sample_pass 400000 100 76"
  have h1: "logging ?st" by code_simp
  have h2: "due_each (previousMillis ?st) [?a, ?b]" by code_simp
  have ha: "togglePin ?a \<and> 0 < sint (analogValue1 ?a) \<and> 0 < sint (analogValue2 ?a) \<and>
    anomalous (eeprom ?st) (readingIndex ?st) (temperatureF1 ?a) (temperatureF2 ?a)"
    by code_simp
  have hb: "togglePin ?b \<and> 0 < sint (analogValue1 ?b) \<and> 0 < sint (analogValue2 ?b) \<and>
    anomalous (eeprom ?st) (readingIndex ?st) (temperatureF1 ?b) (temperatureF2 ?b)"
    by code_simp
  have h3: "\<forall>inp\<in>set [?a, ?b]. togglePin inp \<and> 0 < sint (analogValue1 inp) \<and>
    0 < sint (analogValue2 inp) \<and>
    anomalous (eeprom ?st) (readingIndex ?st) (temperatureF1 inp) (temperatureF2 inp)"
    using ha hb by simp
  have v: "readingIndex ?st = 2" "serial ?st = [Initialized 2]" by code_simp+
  note t = rejected_run_keeps_baseline [OF h1 h2 h3]
  have c1: "eeprom (run ?st [?a, ?b]) = logged_device" using t by simp
  have c2: "readingIndex (run ?st [?a, ?b]) = 2" using t v by simp
  have c3: "logging (run ?st [?a, ?b])" using t by simp
  have c4: "serial (run ?st [?a, ?b]) = [Initialized 2, AnomalousReading, AnomalousReading]"
    using t v by simp
  show ?thesis using h1 h2 ha hb c1 c2 c3 c4 by blast
qed

section \<open>The report\<close>

lemma highest1_scan_step:
  "sint (highestTemp1 (scan_step e n j s)) = max (sint (highestTemp1 s)) (sint (fst (record_at e j)))"
  by (simp add: scan_step_def update_stats_def Let_def)

lemma highest2_scan_step:
  "sint (highestTemp2 (scan_step e n j s)) = max (sint (highestTemp2 s)) (sint (snd (record_at e j)))"
  by (simp add: scan_step_def update_stats_def Let_def)

lemma total1_scan_step:
  "totalTemp1 (scan_step e n j s) = totalTemp1 s + scast (fst (record_at e j))"
  by (simp add: scan_step_def update_stats_def Let_def)

lemma total2_scan_step:
  "totalTemp2 (scan_step e n j s) = totalTemp2 s + scast (snd (record_at e j))"
  by (simp add: scan_step_def update_stats_def Let_def)

lemma first_scan_step:
  "firstTemp1 (scan_step e n j s) = (if j = 0 then fst (record_at e j) else firstTemp1 s)"
  "firstTemp2 (scan_step e n j s) = (if j = 0 then snd (record_at e j) else firstTemp2 s)"
  by (simp_all add: scan_step_def update_stats_def Let_def)

lemma last_scan_step:
  "lastTemp1 (scan_step e n j s) = (if int j = sint (n - 1) then fst (record_at e j) else lastTemp1 s)"
  "lastTemp2 (scan_step e n j s) = (if int j = sint (n - 1) then snd (record_at e j) else lastTemp2 s)"
  by (simp_all add: scan_step_def update_stats_def Let_def)

lemma scan_highest1:
  "sint (highestTemp1 (fold (scan_step e n) [0..<k] init_stats)) =
     Max (set (- 9999 # map (sint \<circ> fst) (records e k)))"
proof (induction k)
  case 0
  show ?case by (simp add: init_stats_def records_def)
next
  case (Suc k)
  have "Max (insert (sint (fst (record_at e k))) (set (- 9999 # map (sint \<circ> fst) (records e k)))) =
    max (sint (fst (record_at e k))) (Max (set (- 9999 # map (sint \<circ> fst) (records e k))))"
    by (rule Max_insert) simp_all
  then show ?case
    using Suc by (simp add: highest1_scan_step records_def max.commute insert_commute)
qed

lemma scan_total1:
  "totalTemp1 (fold (scan_step e n) [0..<k] init_stats) =
     word_of_int (sum_list (map (sint \<circ> fst) (records e k)))"
proof (induction k)
  case 0
  show ?case by (simp add: init_stats_def records_def)
next
  case (Suc k)
  then show ?case by (simp add: total1_scan_step records_def)
qed

lemma sum_list_int16_bounds:
  "- 32768 * int (length rs) \<le> sum_list (map (sint \<circ> f) rs) \<and>
   sum_list (map (sint \<circ> f) rs) \<le> 32767 * int (length rs)" for f :: "'a \<Rightarrow> int16"
proof (induction rs)
  case Nil
  show ?case by simp
next
  case (Cons r rs)
  have "- 32768 \<le> sint (f r)" "sint (f r) \<le> 32767"
    using sint_ge [of "f r"] sint_lt [of "f r"] by simp_all
  then show ?case using Cons by (simp add: algebra_simps)
qed

lemma sdiv_bounds:
  fixes S :: int
  assumes "0 < n" "- 32768 * n \<le> S" "S \<le> 32767 * n"
  shows "- 32768 \<le> S sdiv n \<and> S sdiv n \<le> 32767"
proof (cases "0 \<le> S")
  case True
  have "S div n \<le> (32767 * n) div n"
    using assms by (intro zdiv_mono1) simp_all
  then have u: "S div n \<le> 32767" using assms by simp
  have l: "0 \<le> S div n" using True assms by (simp add: pos_imp_zdiv_nonneg_iff)
  show ?thesis
    using True assms u l by (cases "S = 0") (simp_all add: signed_divide_int_def)
next
  case False
  have "(- S) div n \<le> (32768 * n) div n"
    using assms by (intro zdiv_mono1) simp_all
  then have u: "(- S) div n \<le> 32768" using assms by simp
  have l: "0 \<le> (- S) div n" using False assms by (simp add: pos_imp_zdiv_nonneg_iff)
  show ?thesis
    using False assms u l by (simp add: signed_divide_int_def)
qed

text \<open>The quotient is truncated towards zero: -15 / 2 is -7.\<close>

lemma average_truncates: "average (- 15) 2 = - 7"
  by (simp add: average_def signed_divide_int_def)

lemma sint_average:
  fixes f :: "'a \<Rightarrow> int16"
  assumes "0 < n" "n \<le> 60" "length rs = n"
  shows "sint (average (word_of_int (sum_list (map (sint \<circ> f) rs))) (word_of_nat n)) =
         sum_list (map (sint \<circ> f) rs) sdiv int n"
proof -
  let ?S = "sum_list (map (sint \<circ> f) rs)"
  have b: "- 32768 * int n \<le> ?S" "?S \<le> 32767 * int n"
    using sum_list_int16_bounds [of rs f] assms by simp_all
  then have "- 2147483648 \<le> ?S" "?S < 2147483648" using assms by simp_all
  then have t: "sint (word_of_int ?S :: long32) = ?S"
    by (simp add: sint_sbintrunc' signed_take_bit_int_eq_self)
  have n: "sint (word_of_nat n :: int16) = int n" using assms by (simp add: sint_index)
  have q: "- 32768 \<le> ?S sdiv int n \<and> ?S sdiv int n \<le> 32767"
    using sdiv_bounds [of "int n" ?S] b assms by simp
  then have "sint (word_of_int (?S sdiv int n) :: int16) = ?S sdiv int n"
    by (simp add: sint_sbintrunc' signed_take_bit_int_eq_self)
  then show ?thesis by (simp add: average_def t n)
qed

lemma scan_highest2:
  "sint (highestTemp2 (fold (scan_step e n) [0..<k] init_stats)) =
     Max (set (- 9999 # map (sint \<circ> snd) (records e k)))"
proof (induction k)
  case 0
  show ?case by (simp add: init_stats_def records_def)
next
  case (Suc k)
  have "Max (insert (sint (snd (record_at e k))) (set (- 9999 # map (sint \<circ> snd) (records e k)))) =
    max (sint (snd (record_at e k))) (Max (set (- 9999 # map (sint \<circ> snd) (records e k))))"
    by (rule Max_insert) simp_all
  then show ?case
    using Suc by (simp add: highest2_scan_step records_def max.commute insert_commute)
qed

lemma scan_total2:
  "totalTemp2 (fold (scan_step e n) [0..<k] init_stats) =
     word_of_int (sum_list (map (sint \<circ> snd) (records e k)))"
proof (induction k)
  case 0
  show ?case by (simp add: init_stats_def records_def)
next
  case (Suc k)
  then show ?case by (simp add: total2_scan_step records_def)
qed

lemma Max_with_floor:
  "xs \<noteq> [] \<Longrightarrow> Max (set (c # xs)) = max c (Max (set xs))" for c :: int
  by (simp add: Max_insert)

lemma scan_first:
  "0 < k \<Longrightarrow> firstTemp1 (fold (scan_step e n) [0..<k] init_stats) = fst (hd (records e k)) \<and>
     firstTemp2 (fold (scan_step e n) [0..<k] init_stats) = snd (hd (records e k))"
proof (induction k)
  case 0
  then show ?case by simp
next
  case (Suc k)
  show ?case
  proof (cases "k = 0")
    case True
    then show ?thesis by (simp add: first_scan_step records_def)
  next
    case False
    then have "hd (records e (Suc k)) = hd (records e k)"
      by (simp add: records_def hd_append hd_map)
    then show ?thesis using Suc False by (simp add: first_scan_step)
  qed
qed

lemma scan_last:
  assumes "0 < n" "n \<le> 60"
  shows "lastTemp1 (fold (scan_step e (word_of_nat n)) [0..<n] init_stats) = fst (last (records e n)) \<and>
     lastTemp2 (fold (scan_step e (word_of_nat n)) [0..<n] init_stats) = snd (last (records e n))"
proof -
  obtain m where m: "n = Suc m" using assms by (cases n) simp_all
  have "sint (word_of_nat (Suc m) - 1 :: int16) = int m"
    using assms m sint_index [of m] by simp
  then show ?thesis
    by (simp add: m last_scan_step records_def)
qed

lemma word_of_sint: "sint (w :: int16) = k \<Longrightarrow> w = word_of_int k"
  by auto

text \<open>
  The report in general: with a count of \<open>n\<close> between 1 and 60 the highest value
  printed is the larger of -9999, the value the scan starts from, and the maximum of
  the stored values.
\<close>

lemma report_from_start_value:
  assumes "device_ok (eeprom st)" "readingIndex st = word_of_nat n" "n \<le> 60"
  shows "(n = 0 \<longrightarrow> serial (load_data st) = serial st @ [LoadingData, NoDataToLoad]) \<and>
         (0 < n \<longrightarrow> (\<exists>h1 a1 d1 h2 a2 d2.
            serial (load_data st) =
              serial st @ [LoadingData] @ map (\<lambda>(a, b). Line a b) (records (eeprom st) n) @
              [LoadingComplete,
               HighestTemperature 1 h1, AverageTemperature 1 a1,
               MeasurementsCount 1 (readingIndex st), TotalEnergyCollected 1 d1,
               HighestTemperature 2 h2, AverageTemperature 2 a2,
               MeasurementsCount 2 (readingIndex st), TotalEnergyCollected 2 d2] \<and>
            sint h1 = max (- 9999) (Max (set (map (sint \<circ> fst) (records (eeprom st) n)))) \<and>
            sint a1 = sum_list (map (sint \<circ> fst) (records (eeprom st) n)) sdiv int n \<and>
            sint h2 = max (- 9999) (Max (set (map (sint \<circ> snd) (records (eeprom st) n)))) \<and>
            sint a2 = sum_list (map (sint \<circ> snd) (records (eeprom st) n)) sdiv int n \<and>
            d1 = c_abs (fst (last (records (eeprom st) n)) - fst (hd (records (eeprom st) n))) \<and>
            d2 = c_abs (snd (last (records (eeprom st) n)) - snd (hd (records (eeprom st) n)))))"
proof (intro conjI impI)
  assume "n = 0"
  then show "serial (load_data st) = serial st @ [LoadingData, NoDataToLoad]"
    using assms by (simp add: load_data_empty)
next
  assume n: "0 < n"
  let ?rs = "records (eeprom st) n"
  let ?s = "fold (scan_step (eeprom st) (readingIndex st)) [0..<n] init_stats"
  have ne: "map (sint \<circ> fst) ?rs \<noteq> []" "map (sint \<circ> snd) ?rs \<noteq> []"
    using n by (simp_all add: records_def)
  have pos: "0 < sint (readingIndex st)" using assms n by (simp add: sint_index)
  have ser: "serial (load_data st) =
      serial st @ [LoadingData] @ map (\<lambda>(a, b). Line a b) ?rs @
      [LoadingComplete,
       HighestTemperature 1 (highestTemp1 ?s),
       AverageTemperature 1 (average (totalTemp1 ?s) (readingIndex st)),
       MeasurementsCount 1 (readingIndex st),
       TotalEnergyCollected 1 (c_abs (lastTemp1 ?s - firstTemp1 ?s)),
       HighestTemperature 2 (highestTemp2 ?s),
       AverageTemperature 2 (average (totalTemp2 ?s) (readingIndex st)),
       MeasurementsCount 2 (readingIndex st),
       TotalEnergyCollected 2 (c_abs (lastTemp2 ?s - firstTemp2 ?s))]"
    using load_data_replay [OF assms] pos by (simp add: report_def Let_def)
  have d: "c_abs (lastTemp1 ?s - firstTemp1 ?s) = c_abs (fst (last ?rs) - fst (hd ?rs))"
    "c_abs (lastTemp2 ?s - firstTemp2 ?s) = c_abs (snd (last ?rs) - snd (hd ?rs))"
    using scan_first [OF n, of "eeprom st" "readingIndex st"]
      scan_last [OF n assms(3), of "eeprom st"] by (simp_all add: assms(2))
  have h1: "sint (highestTemp1 ?s) = max (- 9999) (Max (set (map (sint \<circ> fst) ?rs)))"
    using Max_with_floor [OF ne(1)] by (simp only: scan_highest1)
  have h2: "sint (highestTemp2 ?s) = max (- 9999) (Max (set (map (sint \<circ> snd) ?rs)))"
    using Max_with_floor [OF ne(2)] by (simp only: scan_highest2)
  have a1: "sint (average (totalTemp1 ?s) (readingIndex st)) =
      sum_list (map (sint \<circ> fst) ?rs) sdiv int n"
    using sint_average [OF n assms(3), of ?rs fst] by (simp add: scan_total1 assms(2))
  have a2: "sint (average (totalTemp2 ?s) (readingIndex st)) =
      sum_list (map (sint \<circ> snd) ?rs) sdiv int n"
    using sint_average [OF n assms(3), of ?rs snd] by (simp add: scan_total2 assms(2))
  show "\<exists>h1 a1 d1 h2 a2 d2.
            serial (load_data st) =
              serial st @ [LoadingData] @ map (\<lambda>(a, b). Line a b) (records (eeprom st) n) @
              [LoadingComplete,
               HighestTemperature 1 h1, AverageTemperature 1 a1,
               MeasurementsCount 1 (readingIndex st), TotalEnergyCollected 1 d1,
               HighestTemperature 2 h2, AverageTemperature 2 a2,
               MeasurementsCount 2 (readingIndex st), TotalEnergyCollected 2 d2] \<and>
            sint h1 = max (- 9999) (Max (set (map (sint \<circ> fst) (records (eeprom st) n)))) \<and>
            sint a1 = sum_list (map (sint \<circ> fst) (records (eeprom st) n)) sdiv int n \<and>
            sint h2 = max (- 9999) (Max (set (map (sint \<circ> snd) (records (eeprom st) n)))) \<and>
            sint a2 = sum_list (map (sint \<circ> snd) (records (eeprom st) n)) sdiv int n \<and>
            d1 = c_abs (fst (last (records (eeprom st) n)) - fst (hd (records (eeprom st) n))) \<and>
            d2 = c_abs (snd (last (records (eeprom st) n)) - snd (hd (records (eeprom st) n)))"
    using ser h1 h2 a1 a2 d by blast
qed

text \<open>
  C5: a replay with a count of 0 prints that there is no data. With a count of \<open>n\<close>
  between 1 and 60, on a device that holds the whole layout and whose stored values
  are at least -9999 (as every temperature is that the conversion of lines 111 to 122
  yields), it prints the \<open>n\<close> records and then, for each channel on its own, the
  highest value, which is the maximum of the stored values, and the average, which is
  the sum of the stored values divided by \<open>n\<close> with truncation towards zero. The
  temperature difference that enters the energy line is the \<^verbatim>\<open>abs\<close> of the last
  stored value minus the first.
\<close>

theorem report_statistics:
  assumes "device_ok (eeprom st)" "readingIndex st = word_of_nat n" "n \<le> 60"
    "\<forall>r\<in>set (records (eeprom st) n). - 9999 \<le> sint (fst r) \<and> - 9999 \<le> sint (snd r)"
  shows "(n = 0 \<longrightarrow> serial (load_data st) = serial st @ [LoadingData, NoDataToLoad]) \<and>
         (0 < n \<longrightarrow> (\<exists>h1 a1 d1 h2 a2 d2.
            serial (load_data st) =
              serial st @ [LoadingData] @ map (\<lambda>(a, b). Line a b) (records (eeprom st) n) @
              [LoadingComplete,
               HighestTemperature 1 h1, AverageTemperature 1 a1,
               MeasurementsCount 1 (readingIndex st), TotalEnergyCollected 1 d1,
               HighestTemperature 2 h2, AverageTemperature 2 a2,
               MeasurementsCount 2 (readingIndex st), TotalEnergyCollected 2 d2] \<and>
            sint h1 = Max (set (map (sint \<circ> fst) (records (eeprom st) n))) \<and>
            sint a1 = sum_list (map (sint \<circ> fst) (records (eeprom st) n)) sdiv int n \<and>
            sint h2 = Max (set (map (sint \<circ> snd) (records (eeprom st) n))) \<and>
            sint a2 = sum_list (map (sint \<circ> snd) (records (eeprom st) n)) sdiv int n \<and>
            d1 = c_abs (fst (last (records (eeprom st) n)) - fst (hd (records (eeprom st) n))) \<and>
            d2 = c_abs (snd (last (records (eeprom st) n)) - snd (hd (records (eeprom st) n)))))"
proof (intro conjI impI)
  assume "n = 0"
  then show "serial (load_data st) = serial st @ [LoadingData, NoDataToLoad]"
    using assms by (simp add: load_data_empty)
next
  assume n: "0 < n"
  let ?rs = "records (eeprom st) n"
  have "?rs \<noteq> []" using n by (simp add: records_def)
  then have mem: "hd ?rs \<in> set ?rs" by (rule hd_in_set)
  have lo: "- 9999 \<le> sint (fst (hd ?rs))" "- 9999 \<le> sint (snd (hd ?rs))"
    using assms(4) mem by blast+
  have "sint (fst (hd ?rs)) \<le> Max (set (map (sint \<circ> fst) ?rs))"
    using mem by (intro Max_ge) auto
  with lo(1) have "- 9999 \<le> Max (set (map (sint \<circ> fst) ?rs))"
    by (rule order_trans)
  then have m1: "max (- 9999) (Max (set (map (sint \<circ> fst) ?rs))) =
      Max (set (map (sint \<circ> fst) ?rs))"
    by (rule max.absorb2)
  have "sint (snd (hd ?rs)) \<le> Max (set (map (sint \<circ> snd) ?rs))"
    using mem by (intro Max_ge) auto
  with lo(2) have "- 9999 \<le> Max (set (map (sint \<circ> snd) ?rs))"
    by (rule order_trans)
  then have m2: "max (- 9999) (Max (set (map (sint \<circ> snd) ?rs))) =
      Max (set (map (sint \<circ> snd) ?rs))"
    by (rule max.absorb2)
  show "\<exists>h1 a1 d1 h2 a2 d2.
            serial (load_data st) =
              serial st @ [LoadingData] @ map (\<lambda>(a, b). Line a b) (records (eeprom st) n) @
              [LoadingComplete,
               HighestTemperature 1 h1, AverageTemperature 1 a1,
               MeasurementsCount 1 (readingIndex st), TotalEnergyCollected 1 d1,
               HighestTemperature 2 h2, AverageTemperature 2 a2,
               MeasurementsCount 2 (readingIndex st), TotalEnergyCollected 2 d2] \<and>
            sint h1 = Max (set (map (sint \<circ> fst) (records (eeprom st) n))) \<and>
            sint a1 = sum_list (map (sint \<circ> fst) (records (eeprom st) n)) sdiv int n \<and>
            sint h2 = Max (set (map (sint \<circ> snd) (records (eeprom st) n))) \<and>
            sint a2 = sum_list (map (sint \<circ> snd) (records (eeprom st) n)) sdiv int n \<and>
            d1 = c_abs (fst (last (records (eeprom st) n)) - fst (hd (records (eeprom st) n))) \<and>
            d2 = c_abs (snd (last (records (eeprom st) n)) - snd (hd (records (eeprom st) n)))"
    using report_from_start_value [OF assms(1-3)] n unfolding m1 m2 by blast
qed

text \<open>
  The records (70, 72), (74, 76) and (77, 79): the highest values are 77 and 79, the
  averages 221 / 3 = 73 and 227 / 3 = 75, and both temperature differences are 7.
\<close>

theorem report_statistics_witness:
  "device_ok (eeprom (idle_state session_device)) \<and>
   readingIndex (idle_state session_device) = word_of_nat 3 \<and> (3 :: nat) \<le> 60 \<and> 0 < (3 :: nat) \<and>
   records (eeprom (idle_state session_device)) 3 = [(70, 72), (74, 76), (77, 79)] \<and>
   - 9999 \<le> sint (70 :: int16) \<and> - 9999 \<le> sint (72 :: int16) \<and>
   - 9999 \<le> sint (74 :: int16) \<and> - 9999 \<le> sint (76 :: int16) \<and>
   - 9999 \<le> sint (77 :: int16) \<and> - 9999 \<le> sint (79 :: int16) \<and>
   serial (load_data (idle_state session_device)) =
     [Initialized 3, LoadingData, Line 70 72, Line 74 76, Line 77 79, LoadingComplete,
      HighestTemperature 1 77, AverageTemperature 1 73, MeasurementsCount 1 3,
      TotalEnergyCollected 1 7,
      HighestTemperature 2 79, AverageTemperature 2 75, MeasurementsCount 2 3,
      TotalEnergyCollected 2 7]"
proof -
  let ?st = "idle_state session_device"
  have h1: "device_ok (eeprom ?st)" by simp
  have h2: "readingIndex ?st = word_of_nat 3" by code_simp
  have h3: "(3 :: nat) \<le> 60" and h4: "0 < (3 :: nat)" by simp_all
  have v: "serial ?st = [Initialized 3]" "readingIndex ?st = 3" by code_simp+
  have rs: "records session_device 3 = [(70, 72), (74, 76), (77, 79)]" by code_simp
  have b: "- 9999 \<le> sint (70 :: int16) \<and> - 9999 \<le> sint (72 :: int16) \<and>
   - 9999 \<le> sint (74 :: int16) \<and> - 9999 \<le> sint (76 :: int16) \<and>
   - 9999 \<le> sint (77 :: int16) \<and> - 9999 \<le> sint (79 :: int16)"
    by simp
  have h5: "\<forall>r\<in>set (records (eeprom ?st) 3). - 9999 \<le> sint (fst r) \<and> - 9999 \<le> sint (snd r)"
    using b by (simp add: rs)
  obtain h1' a1 d1 h2' a2 d2 where
    ser: "serial (load_data ?st) =
              serial ?st @ [LoadingData] @ map (\<lambda>(a, b). Line a b) (records (eeprom ?st) 3) @
              [LoadingComplete,
               HighestTemperature 1 h1', AverageTemperature 1 a1,
               MeasurementsCount 1 (readingIndex ?st), TotalEnergyCollected 1 d1,
               HighestTemperature 2 h2', AverageTemperature 2 a2,
               MeasurementsCount 2 (readingIndex ?st), TotalEnergyCollected 2 d2]"
    and hi1: "sint h1' = Max (set (map (sint \<circ> fst) (records (eeprom ?st) 3)))"
    and av1: "sint a1 = sum_list (map (sint \<circ> fst) (records (eeprom ?st) 3)) sdiv int 3"
    and hi2: "sint h2' = Max (set (map (sint \<circ> snd) (records (eeprom ?st) 3)))"
    and av2: "sint a2 = sum_list (map (sint \<circ> snd) (records (eeprom ?st) 3)) sdiv int 3"
    and df1: "d1 = c_abs (fst (last (records (eeprom ?st) 3)) - fst (hd (records (eeprom ?st) 3)))"
    and df2: "d2 = c_abs (snd (last (records (eeprom ?st) 3)) - snd (hd (records (eeprom ?st) 3)))"
    using report_statistics [OF h1 h2 h3 h5] h4 by blast
  have "sint h1' = 77" "sint a1 = 73" "sint h2' = 79" "sint a2 = 75"
    using hi1 av1 hi2 av2 by (simp_all add: rs signed_divide_int_def)
  then have e: "h1' = 77" "a1 = 73" "h2' = 79" "a2 = 75"
    by (auto dest: word_of_sint)
  have d: "d1 = 7" "d2 = 7" by (simp_all add: df1 df2 rs c_abs_def)
  have c: "serial (load_data ?st) =
     [Initialized 3, LoadingData, Line 70 72, Line 74 76, Line 77 79, LoadingComplete,
      HighestTemperature 1 77, AverageTemperature 1 73, MeasurementsCount 1 3,
      TotalEnergyCollected 1 7,
      HighestTemperature 2 79, AverageTemperature 2 75, MeasurementsCount 2 3,
      TotalEnergyCollected 2 7]"
    using ser by (simp add: v rs e d)
  have rs': "records (eeprom ?st) 3 = [(70, 72), (74, 76), (77, 79)]"
    using rs by simp
  show ?thesis using h1 h2 h3 h4 rs' b c by blast
qed

text \<open>
  The bound on the stored values is needed for the highest value: for the single record
  (-10000, -10000), which no sampling pass stores, the scan keeps its start value.
\<close>

lemma report_below_start_value:
  "records (eeprom (idle_state cold_device)) 1 = [(- 10000, - 10000)] \<and>
   serial (load_data (idle_state cold_device)) =
     [Initialized 1, LoadingData, Line (- 10000) (- 10000), LoadingComplete,
      HighestTemperature 1 (- 9999), AverageTemperature 1 (- 10000), MeasurementsCount 1 1,
      TotalEnergyCollected 1 0,
      HighestTemperature 2 (- 9999), AverageTemperature 2 (- 10000), MeasurementsCount 2 1,
      TotalEnergyCollected 2 0]"
  by code_simp

end
